theory Spec2Isabelle
  imports Complex_Main "HOL-Library.Word" "HOL-Library.Multiset" "HOL-Library.Log_Nat"
begin

unbundle bit_operations_syntax

chapter \<open>A shallow embedding of the chart module (chart.js)\<close>

text \<open>
  The module draws seven kinds of charts on an Android canvas and saves them as PNG files.
  Every entry point returns the path of the saved file, or \<open>null\<close>. The embedding keeps
  the source's structure: one HOL function per JavaScript function, the drawing calls as a
  list of commands in the order the source issues them, \<open>null\<close> as \<open>None\<close>, an exception
  as \<open>None\<close> of the enclosing \<open>try\<close>.

  Numbers. A JavaScript number is an IEEE-754 double. The type \<open>jsnum\<close> holds the value
  of a double: a real, or one of the three non-finite values. Where a number decides a
  branch or is returned to the caller (the sums, the denominator and the fit of
  \<open>calculateLinearRegression\<close>, the total of the pie chart) every operation of the source
  is the binary64 operation: the exact result rounded to the nearest double, ties to even,
  with overflow to an infinity (section \<open>Binary64 arithmetic\<close>). The coordinates that are
  handed to the canvas are kept as the exact expressions of the source; the canvas takes
  them as 32-bit floats, so their last bits are not part of the drawing. The sign of zero
  is not modelled. Numbers given by the caller (data values, sizes, scales) are finite.
\<close>

section \<open>Numbers\<close>

datatype jsnum = Num real | PInf | NInf | NaN

fun isFinite :: "jsnum \<Rightarrow> bool" where
  "isFinite (Num r) = True"
| "isFinite PInf = False"
| "isFinite NInf = False"
| "isFinite NaN = False"

text \<open>Truthiness of a number, as \<open>||\<close> and \<open>!\<close> test it: \<open>0\<close> and \<open>NaN\<close> are falsy.\<close>

fun truthy :: "jsnum \<Rightarrow> bool" where
  "truthy (Num r) = (r \<noteq> 0)"
| "truthy PInf = True"
| "truthy NInf = True"
| "truthy NaN = False"

definition js_or :: "jsnum \<Rightarrow> jsnum \<Rightarrow> jsnum" where
  "js_or a b = (if truthy a then a else b)"

instantiation jsnum :: "{zero, one, plus, uminus, minus, times, inverse, ord}"
begin

definition zero_jsnum :: jsnum where
  "zero_jsnum = Num 0"

definition one_jsnum :: jsnum where
  "one_jsnum = Num 1"

fun plus_jsnum :: "jsnum \<Rightarrow> jsnum \<Rightarrow> jsnum" where
  "plus_jsnum NaN b = NaN"
| "plus_jsnum a NaN = NaN"
| "plus_jsnum (Num a) (Num b) = Num (a + b)"
| "plus_jsnum PInf NInf = NaN"
| "plus_jsnum NInf PInf = NaN"
| "plus_jsnum PInf b = PInf"
| "plus_jsnum NInf b = NInf"
| "plus_jsnum (Num a) b = b"

fun uminus_jsnum :: "jsnum \<Rightarrow> jsnum" where
  "uminus_jsnum (Num a) = Num (- a)"
| "uminus_jsnum PInf = NInf"
| "uminus_jsnum NInf = PInf"
| "uminus_jsnum NaN = NaN"

definition minus_jsnum :: "jsnum \<Rightarrow> jsnum \<Rightarrow> jsnum" where
  "minus_jsnum a b = a + (- b)"

text \<open>The sign of an infinite product or quotient: the other operand's sign decides.\<close>

fun times_jsnum :: "jsnum \<Rightarrow> jsnum \<Rightarrow> jsnum" where
  "times_jsnum NaN b = NaN"
| "times_jsnum a NaN = NaN"
| "times_jsnum (Num a) (Num b) = Num (a * b)"
| "times_jsnum PInf (Num b) = (if b = 0 then NaN else if 0 < b then PInf else NInf)"
| "times_jsnum NInf (Num b) = (if b = 0 then NaN else if 0 < b then NInf else PInf)"
| "times_jsnum (Num a) PInf = (if a = 0 then NaN else if 0 < a then PInf else NInf)"
| "times_jsnum (Num a) NInf = (if a = 0 then NaN else if 0 < a then NInf else PInf)"
| "times_jsnum PInf PInf = PInf"
| "times_jsnum NInf NInf = PInf"
| "times_jsnum PInf NInf = NInf"
| "times_jsnum NInf PInf = NInf"

text \<open>
  Division never raises: a finite number over zero is an infinity of the numerator's sign
  (the zero is taken as positive) and \<open>0 / 0\<close> is \<open>NaN\<close>.
\<close>

fun divide_jsnum :: "jsnum \<Rightarrow> jsnum \<Rightarrow> jsnum" where
  "divide_jsnum NaN b = NaN"
| "divide_jsnum a NaN = NaN"
| "divide_jsnum (Num a) (Num b) =
     (if b \<noteq> 0 then Num (a / b)
      else if a = 0 then NaN else if 0 < a then PInf else NInf)"
| "divide_jsnum (Num a) PInf = Num 0"
| "divide_jsnum (Num a) NInf = Num 0"
| "divide_jsnum PInf (Num b) = (if 0 \<le> b then PInf else NInf)"
| "divide_jsnum NInf (Num b) = (if 0 \<le> b then NInf else PInf)"
| "divide_jsnum PInf b = NaN"
| "divide_jsnum NInf b = NaN"

definition inverse_jsnum :: "jsnum \<Rightarrow> jsnum" where
  "inverse_jsnum a = divide (Num 1) a"

text \<open>\<open>a < b\<close> and \<open>a <= b\<close> of the source: every comparison with \<open>NaN\<close> is false.\<close>

fun less_jsnum :: "jsnum \<Rightarrow> jsnum \<Rightarrow> bool" where
  "less_jsnum NaN b = False"
| "less_jsnum a NaN = False"
| "less_jsnum (Num a) (Num b) = (a < b)"
| "less_jsnum a NInf = False"
| "less_jsnum PInf b = False"
| "less_jsnum NInf b = True"
| "less_jsnum (Num a) PInf = True"

fun less_eq_jsnum :: "jsnum \<Rightarrow> jsnum \<Rightarrow> bool" where
  "less_eq_jsnum NaN b = False"
| "less_eq_jsnum a NaN = False"
| "less_eq_jsnum (Num a) (Num b) = (a \<le> b)"
| "less_eq_jsnum NInf b = True"
| "less_eq_jsnum a PInf = True"
| "less_eq_jsnum a NInf = False"
| "less_eq_jsnum PInf b = False"

instance ..

end

text \<open>\<open>Math.sqrt\<close>, \<open>Math.floor\<close>, \<open>Math.ceil\<close>, \<open>Math.round\<close> (half up), \<open>Math.min\<close>.\<close>

fun js_sqrt :: "jsnum \<Rightarrow> jsnum" where
  "js_sqrt (Num a) = (if 0 \<le> a then Num (sqrt a) else NaN)"
| "js_sqrt PInf = PInf"
| "js_sqrt NInf = NaN"
| "js_sqrt NaN = NaN"

fun js_floor :: "jsnum \<Rightarrow> jsnum" where
  "js_floor (Num a) = Num (of_int \<lfloor>a\<rfloor>)"
| "js_floor a = a"

fun js_ceil :: "jsnum \<Rightarrow> jsnum" where
  "js_ceil (Num a) = Num (of_int \<lceil>a\<rceil>)"
| "js_ceil a = a"

definition js_round :: "jsnum \<Rightarrow> jsnum" where
  "js_round a = js_floor (a + Num (1 / 2))"

section \<open>Binary64 arithmetic\<close>

text \<open>
  The exponent of a non-zero real \<open>x\<close>: the integer \<open>e\<close> with \<open>2\<^sup>e \<le> |x| < 2\<^sup>e\<^sup>+\<^sup>1\<close>, found from
  the bit length of the integer part of \<open>|x|\<close> or of \<open>1 / |x|\<close>.
\<close>

definition expo :: "real \<Rightarrow> int" where
  "expo x =
     (if 1 \<le> \<bar>x\<bar> then bitlen \<lfloor>\<bar>x\<bar>\<rfloor> - 1 else - bitlen (\<lceil>1 / \<bar>x\<bar>\<rceil> - 1))"

text \<open>Rounding a real to the nearest integer, a tie to the even one.\<close>

definition roundEven :: "real \<Rightarrow> int" where
  "roundEven x =
     (let f = \<lfloor>x\<rfloor>; d = x - of_int f
      in if d < 1 / 2 then f else if 1 / 2 < d then f + 1 else if even f then f else f + 1)"

text \<open>
  The double nearest to a real (round to nearest, ties to even). A double has 53
  significant bits, so the doubles around \<open>x\<close> are the multiples of \<open>2\<^sup>e\<^sup>-\<^sup>5\<^sup>2\<close>, where \<open>e\<close> is
  the exponent of \<open>x\<close>, and not less than \<open>-1022\<close> (below that the doubles are the
  multiples of \<open>2\<^sup>-\<^sup>1\<^sup>0\<^sup>7\<^sup>4\<close>). A result of magnitude \<open>2\<^sup>1\<^sup>0\<^sup>2\<^sup>4\<close> is an overflow. This is also how
  a decimal literal of the caller becomes a number.
\<close>

definition round64 :: "real \<Rightarrow> jsnum" where
  "round64 x =
     (if x = 0 then Num 0
      else
        let e = max (expo x) (- 1022);
            u = 2 powi (e - 52);
            r = of_int (roundEven (x / u)) * u
        in if 2 powi 1024 \<le> \<bar>r\<bar> then (if 0 < x then PInf else NInf) else Num r)"

text \<open>
  The arithmetic operations of the source on doubles: the exact result, which is
  infinite or \<open>NaN\<close> as in section \<open>Numbers\<close>, rounded when it is finite.
\<close>

fun rnd64 :: "jsnum \<Rightarrow> jsnum" where
  "rnd64 (Num x) = round64 x"
| "rnd64 a = a"

definition add64 :: "jsnum \<Rightarrow> jsnum \<Rightarrow> jsnum" where
  "add64 a b = rnd64 (a + b)"

definition sub64 :: "jsnum \<Rightarrow> jsnum \<Rightarrow> jsnum" where
  "sub64 a b = rnd64 (a - b)"

definition mul64 :: "jsnum \<Rightarrow> jsnum \<Rightarrow> jsnum" where
  "mul64 a b = rnd64 (a * b)"

definition div64 :: "jsnum \<Rightarrow> jsnum \<Rightarrow> jsnum" where
  "div64 a b = rnd64 (a / b)"

definition sqrt64 :: "jsnum \<Rightarrow> jsnum" where
  "sqrt64 a = rnd64 (js_sqrt a)"

text \<open>A running sum \<open>s += v\<close> over a list, started at \<open>0\<close>.\<close>

definition sum64 :: "jsnum list \<Rightarrow> jsnum" where
  "sum64 vs = foldl add64 (Num 0) vs"


section \<open>ChartUtils.hexToARGB\<close>

text \<open>
  \<open>parseInt(s, 16)\<close>: leading white space is skipped, then an optional sign, then an
  optional \<open>0x\<close>; the longest run of hexadecimal digits is the value, and no digit at
  all gives \<open>NaN\<close> (here \<open>None\<close>). A string is a list of code units below 256.
\<close>

definition isWhiteSpace :: "char \<Rightarrow> bool" where
  "isWhiteSpace c = ((of_char c :: nat) \<in> {9, 10, 11, 12, 13, 32, 160})"

definition hexDigit :: "char \<Rightarrow> nat option" where
  "hexDigit c =
     (let k = (of_char c :: nat) in
      if 48 \<le> k \<and> k \<le> 57 then Some (k - 48)
      else if 65 \<le> k \<and> k \<le> 70 then Some (k - 55)
      else if 97 \<le> k \<and> k \<le> 102 then Some (k - 87)
      else None)"

fun parseDigits :: "nat \<Rightarrow> string \<Rightarrow> nat" where
  "parseDigits acc [] = acc"
| "parseDigits acc (c # cs) =
     (case hexDigit c of None \<Rightarrow> acc | Some d \<Rightarrow> parseDigits (16 * acc + d) cs)"

definition parseInt16 :: "string \<Rightarrow> int option" where
  "parseInt16 s =
     (let s1 = dropWhile isWhiteSpace s;
          sign = (if take 1 s1 = ''-'' then - 1 else 1);
          s2 = (if take 1 s1 = ''-'' \<or> take 1 s1 = ''+'' then drop 1 s1 else s1);
          s3 = (if take 2 s2 = ''0x'' \<or> take 2 s2 = ''0X'' then drop 2 s2 else s2)
      in case s3 of
           [] \<Rightarrow> None
         | c # cs \<Rightarrow>
             (case hexDigit c of
                None \<Rightarrow> None
              | Some d \<Rightarrow> Some (sign * int (parseDigits 0 s3))))"

text \<open>\<open>hex.replace(/^#/, '')\<close> removes one leading \<open>#\<close>.\<close>

fun stripHash :: "string \<Rightarrow> string" where
  "stripHash [] = []"
| "stripHash (c # cs) = (if c = CHR ''#'' then cs else c # cs)"

text \<open>
  \<open>v >> k\<close> converts \<open>v\<close> to a signed 32-bit integer (\<open>NaN\<close> to 0, an integer modulo
  \<open>2^32\<close>) and shifts it arithmetically; \<open>& 0xFF\<close> keeps the low byte.
\<close>

definition toInt32 :: "int option \<Rightarrow> 32 word" where
  "toInt32 v = (case v of None \<Rightarrow> 0 | Some i \<Rightarrow> word_of_int i)"

definition shiftByte :: "int option \<Rightarrow> nat \<Rightarrow> int" where
  "shiftByte v k = sint (signed_drop_bit k (toInt32 v) AND 255)"

definition hexToARGB :: "string \<Rightarrow> int list" where
  "hexToARGB hex =
     (let v = parseInt16 (stripHash hex) in
      if length hex = 9
      then [shiftByte v 24, shiftByte v 16, shiftByte v 8, shiftByte v 0]
      else [255, shiftByte v 16, shiftByte v 8, shiftByte v 0])"

section \<open>ChartUtils.calculateLinearRegression\<close>

text \<open>
  A data point \<open>{x, y}\<close>; the fields are \<open>px\<close> and \<open>py\<close> here. The result object
  \<open>{slope, intercept, n, meanX, Sxx, residualStdErr}\<close>; its field \<open>n\<close> is \<open>npts\<close> here.
\<close>

record point =
  px :: real
  py :: real

record regression =
  slope :: jsnum
  intercept :: jsnum
  npts :: nat
  meanX :: jsnum
  Sxx :: jsnum
  residualStdErr :: jsnum

text \<open>\<open>data[i].x\<close> and \<open>data[i].y\<close>: the caller's numbers, as doubles.\<close>

definition xOf :: "point \<Rightarrow> jsnum" where
  "xOf p = round64 (px p)"

definition yOf :: "point \<Rightarrow> jsnum" where
  "yOf p = round64 (py p)"

text \<open>The first loop: the four running sums.\<close>

fun regression_sums ::
  "point list \<Rightarrow> jsnum \<Rightarrow> jsnum \<Rightarrow> jsnum \<Rightarrow> jsnum \<Rightarrow> jsnum \<times> jsnum \<times> jsnum \<times> jsnum" where
  "regression_sums [] sumX sumY sumXY sumX2 = (sumX, sumY, sumXY, sumX2)"
| "regression_sums (p # ps) sumX sumY sumXY sumX2 =
     regression_sums ps (add64 sumX (xOf p)) (add64 sumY (yOf p))
       (add64 sumXY (mul64 (xOf p) (yOf p))) (add64 sumX2 (mul64 (xOf p) (xOf p)))"

text \<open>The second loop: \<open>Sxx\<close> and the sum of squared residuals \<open>ssr\<close>.\<close>

fun residual_sums ::
  "point list \<Rightarrow> jsnum \<Rightarrow> jsnum \<Rightarrow> jsnum \<Rightarrow> jsnum \<Rightarrow> jsnum \<Rightarrow> jsnum \<times> jsnum" where
  "residual_sums [] mx sl ic sxx ssr = (sxx, ssr)"
| "residual_sums (p # ps) mx sl ic sxx ssr =
     (let dx = sub64 (xOf p) mx;
          dy = sub64 (yOf p) (add64 (mul64 sl (xOf p)) ic)
      in residual_sums ps mx sl ic (add64 sxx (mul64 dx dx)) (add64 ssr (mul64 dy dy)))"

text \<open>
  The array length \<open>n\<close> is a small integer and exact as a double. The test
  \<open>denominator === 0\<close> is made on the double that the subtraction returns.
\<close>

definition calculateLinearRegression :: "point list \<Rightarrow> regression option" where
  "calculateLinearRegression data =
     (let n = length data in
      if n < 2 then None
      else
        (case regression_sums data (Num 0) (Num 0) (Num 0) (Num 0) of
           (sumX, sumY, sumXY, sumX2) \<Rightarrow>
             let denominator = sub64 (mul64 (Num (real n)) sumX2) (mul64 sumX sumX) in
             if denominator = Num 0 then None
             else
               let mx = div64 sumX (Num (real n));
                   my = div64 sumY (Num (real n));
                   sl = div64 (sub64 (mul64 (Num (real n)) sumXY) (mul64 sumX sumY)) denominator;
                   ic = sub64 my (mul64 sl mx)
               in if n < 3
                  then Some \<lparr>slope = sl, intercept = ic, npts = n, meanX = mx,
                              Sxx = Num 0, residualStdErr = Num 0\<rparr>
                  else
                    (case residual_sums data mx sl ic (Num 0) (Num 0) of
                       (sxx, ssr) \<Rightarrow>
                         Some \<lparr>slope = sl, intercept = ic, npts = n, meanX = mx,
                                Sxx = sxx,
                                residualStdErr = sqrt64 (div64 ssr (Num (real (n - 2))))\<rparr>)))"

text \<open>
  The denominator of the slope as the source computes it from the running sums: the
  value it compares with 0 before it divides.
\<close>

definition denominator :: "point list \<Rightarrow> jsnum" where
  "denominator data =
     (case regression_sums data (Num 0) (Num 0) (Num 0) (Num 0) of
        (sumX, sumY, sumXY, sumX2) \<Rightarrow>
          sub64 (mul64 (Num (real (length data))) sumX2) (mul64 sumX sumX))"



section \<open>The drawing surface and the platform\<close>

text \<open>
  A \<open>Paint\<close> object with the attributes the module sets. \<open>new_Paint\<close> gives Android's
  initial attributes; its argument says whether \<open>Paint.ANTI_ALIAS_FLAG\<close> was passed.
\<close>

datatype paint_style = FILL | STROKE

datatype text_align = LEFT | CENTER | RIGHT

record paint =
  argb :: "int list"
  antiAlias :: bool
  strokeWidth :: real
  style :: paint_style
  textSize :: real
  textAlign :: text_align
  fakeBoldText :: bool

definition new_Paint :: "bool \<Rightarrow> paint" where
  "new_Paint aa =
     \<lparr>argb = [255, 0, 0, 0], antiAlias = aa, strokeWidth = 0, style = FILL,
      textSize = 12, textAlign = LEFT, fakeBoldText = False\<rparr>"

text \<open>The calls on a \<open>Path\<close> object, in order.\<close>

datatype path_op = MoveTo jsnum jsnum | LineTo jsnum jsnum | Close

text \<open>
  A drawn text is a sequence of pieces: a literal, \<open>String(v)\<close> of a number, or
  \<open>v.toFixed(1)\<close>. How a number prints is left to the platform.
\<close>

datatype piece = Lit string | OfNum real | ToFixed1 jsnum

type_synonym drawn_text = "piece list"

text \<open>The calls on the \<open>Canvas\<close>, with their arguments in the order of the Android API.\<close>

datatype cmd =
  DrawPaint paint
| DrawLine jsnum jsnum jsnum jsnum paint
| DrawText drawn_text jsnum jsnum paint
| DrawPath "path_op list" paint
| DrawCircle jsnum jsnum jsnum paint
| DrawRect jsnum jsnum jsnum jsnum paint
| DrawArc jsnum jsnum jsnum jsnum jsnum jsnum bool paint
| Save
| Restore
| Rotate jsnum jsnum jsnum
| ClipRect jsnum jsnum jsnum jsnum

text \<open>
  What the module asks of its platform. \<open>now\<close> is \<open>Date.now()\<close>. \<open>createBitmap_ok w h\<close>
  says whether \<open>Bitmap.createBitmap(w, h, ...)\<close> returns (it throws otherwise), and
  \<open>openStream_ok p\<close> whether \<open>new FileOutputStream(p)\<close> does. \<open>compile param body\<close> is
  \<open>new Function(param, body)\<close>: \<open>None\<close> when the constructor throws; the compiled function
  returns \<open>None\<close> when a call of it throws, and a value that is not a number counts as
  \<open>NaN\<close>. \<open>fround\<close> is the rounding of a number stored in a \<open>Float32Array\<close>. The other
  Android calls (drawing, \<open>compress\<close>, \<open>close\<close>, \<open>recycle\<close>, the directory check, which
  catches its own exceptions) are taken not to throw, and the deletion timer is not
  modelled.

  An entry point returns \<open>None\<close> for \<open>null\<close>, or the path together with the drawing calls
  made on the bitmap that was saved there.
\<close>

record platform =
  now :: nat
  createBitmap_ok :: "nat \<Rightarrow> nat \<Rightarrow> bool"
  openStream_ok :: "string \<Rightarrow> bool"
  compile :: "string \<Rightarrow> string \<Rightarrow> (jsnum \<Rightarrow> jsnum option) option"
  fround :: "jsnum \<Rightarrow> jsnum"

type_synonym chart_result = "(string \<times> cmd list) option"

text \<open>The decimal digits of \<open>Date.now()\<close> in the generated file name.\<close>

definition digitChar :: "nat \<Rightarrow> char" where
  "digitChar d = char_of (48 + d)"

function decimal :: "nat \<Rightarrow> string" where
  "decimal k = (if k < 10 then [digitChar k] else decimal (k div 10) @ [digitChar (k mod 10)])"
  by pat_completeness auto
termination
  by (relation "measure id") auto

text \<open>
  \<open>if (!config.path) config.path = `sdcard/msgbot/charts/${name}_${timestamp}.png`\<close>:
  a missing path and the empty string are both falsy.
\<close>

definition falsyString :: "string option \<Rightarrow> bool" where
  "falsyString s = (case s of None \<Rightarrow> True | Some t \<Rightarrow> t = [])"

definition pathOrDefault :: "platform \<Rightarrow> string option \<Rightarrow> string \<Rightarrow> string" where
  "pathOrDefault io p chartName =
     (if falsyString p
      then ''sdcard/msgbot/charts/'' @ chartName @ ''_'' @ decimal (now io) @ ''.png''
      else the p)"

section \<open>createFunctionGraph\<close>

text \<open>
  The configuration after \<open>mergeOptions(defaults, options)\<close>: a field the caller did not
  give holds its default. Field names carry the chart's initials, because several charts
  have options of the same name.
\<close>

record fg_config =
  fg_path :: "string option"
  fg_formula :: "string option"
  fg_width :: nat
  fg_height :: nat
  fg_scale :: real
  fg_backgroundColor :: string
  fg_axisColor :: string
  fg_lineColor :: string

definition fg_defaults :: fg_config where
  "fg_defaults =
     \<lparr>fg_path = None, fg_formula = None, fg_width = 800, fg_height = 600, fg_scale = 20,
      fg_backgroundColor = ''#FFFFFF'', fg_axisColor = ''#CCCCCC'', fg_lineColor = ''#FF0000''\<rparr>"

text \<open>
  The sampling loop over the pixel columns \<open>i\<close>. The call \<open>formulaFunc(mathX)\<close> stands in
  no \<open>try\<close> of its own: when it throws, the loop is left (\<open>None\<close>) and the exception
  reaches the \<open>catch\<close> of the entry point. The flag is \<open>firstPoint\<close>.
\<close>

fun functionPath ::
  "(jsnum \<Rightarrow> jsnum option) \<Rightarrow> jsnum \<Rightarrow> jsnum \<Rightarrow> jsnum \<Rightarrow> nat list \<Rightarrow> bool
     \<Rightarrow> path_op list option" where
  "functionPath formulaFunc centerX centerY sc [] firstPoint = Some []"
| "functionPath formulaFunc centerX centerY sc (i # cols) firstPoint =
     (let mathX = (Num (real i) - centerX) / sc in
      case formulaFunc mathX of
        None \<Rightarrow> None
      | Some mathY \<Rightarrow>
          if \<not> isFinite mathY then functionPath formulaFunc centerX centerY sc cols True
          else
            let canvasY = centerY - mathY * sc in
            if firstPoint
            then map_option ((#) (MoveTo (Num (real i)) canvasY))
                   (functionPath formulaFunc centerX centerY sc cols False)
            else map_option ((#) (LineTo (Num (real i)) canvasY))
                   (functionPath formulaFunc centerX centerY sc cols False))"

definition createFunctionGraph :: "platform \<Rightarrow> fg_config \<Rightarrow> chart_result" where
  "createFunctionGraph io config =
     (let path = pathOrDefault io (fg_path config) ''functionGraph'' in
      if falsyString (fg_formula config) then None
      else
        case compile io ''x'' (''return '' @ the (fg_formula config)) of
          None \<Rightarrow> None
        | Some formulaFunc \<Rightarrow>
            if \<not> createBitmap_ok io (fg_width config) (fg_height config) then None
            else
              let width = Num (real (fg_width config));
                  height = Num (real (fg_height config));
                  bgPaint = (new_Paint False)\<lparr>argb := hexToARGB (fg_backgroundColor config)\<rparr>;
                  axisPaint = (new_Paint False)
                    \<lparr>argb := hexToARGB (fg_axisColor config), strokeWidth := 2\<rparr>;
                  graphPaint = (new_Paint True)
                    \<lparr>argb := hexToARGB (fg_lineColor config), strokeWidth := 5, style := STROKE\<rparr>;
                  centerX = width / Num 2;
                  centerY = height / Num 2
              in case functionPath formulaFunc centerX centerY (Num (fg_scale config))
                        [0 ..< fg_width config] True of
                   None \<Rightarrow> None
                 | Some graph \<Rightarrow>
                     if \<not> openStream_ok io path then None
                     else Some (path,
                       [DrawPaint bgPaint,
                        DrawLine (Num 0) centerY width centerY axisPaint,
                        DrawLine centerX (Num 0) centerX height axisPaint,
                        DrawPath graph graphPaint]))"

section \<open>createPolarGraph\<close>

record pg_config =
  pg_path :: "string option"
  pg_formula :: "string option"
  pg_width :: nat
  pg_height :: nat
  pg_scale :: real
  pg_rotations :: real
  pg_backgroundColor :: string
  pg_axisColor :: string
  pg_lineColor :: string

definition pg_defaults :: pg_config where
  "pg_defaults =
     \<lparr>pg_path = None, pg_formula = None, pg_width = 1024, pg_height = 1024, pg_scale = 20,
      pg_rotations = 5, pg_backgroundColor = ''#FFFFFF'', pg_axisColor = ''#CCCCCC'',
      pg_lineColor = ''#0000FF''\<rparr>"

text \<open>
  The sampling loop \<open>for (angle = 0; angle < maxAngle; angle += step)\<close> with \<open>step = 0.5\<close>.
  Here the call of the formula has a \<open>try\<close> of its own: a throw restarts the path, as a
  non-finite value does. The flag is \<open>isPathStarted\<close>.
\<close>

lemma half_step_decreases:
  fixes angle maxAngle :: real
  assumes "angle < maxAngle"
  shows "nat \<lceil>2 * (maxAngle - (angle + 1 / 2))\<rceil> < nat \<lceil>2 * (maxAngle - angle)\<rceil>"
proof -
  have "2 * (maxAngle - (angle + 1 / 2)) = 2 * (maxAngle - angle) - 1"
    by (simp add: algebra_simps)
  then have "\<lceil>2 * (maxAngle - (angle + 1 / 2))\<rceil> = \<lceil>2 * (maxAngle - angle)\<rceil> - 1"
    by (simp only: ceiling_diff_one)
  moreover have "0 < \<lceil>2 * (maxAngle - angle)\<rceil>"
    using assms by (simp add: ceiling_less_iff [symmetric] less_ceiling_iff)
  ultimately show ?thesis by linarith
qed

function polarPath ::
  "(jsnum \<Rightarrow> jsnum option) \<Rightarrow> jsnum \<Rightarrow> jsnum \<Rightarrow> jsnum \<Rightarrow> real \<Rightarrow> real \<Rightarrow> bool
     \<Rightarrow> path_op list" where
  "polarPath formulaFunc centerX centerY sc maxAngle angle isPathStarted =
     (if angle < maxAngle
      then
        let theta = angle * (pi / 180) in
        case formulaFunc (Num theta) of
          None \<Rightarrow> polarPath formulaFunc centerX centerY sc maxAngle (angle + 1 / 2) False
        | Some r \<Rightarrow>
            if \<not> isFinite r
            then polarPath formulaFunc centerX centerY sc maxAngle (angle + 1 / 2) False
            else
              let mathX = r * Num (cos theta);
                  mathY = r * Num (sin theta);
                  canvasX = centerX + mathX * sc;
                  canvasY = centerY - mathY * sc
              in if \<not> isPathStarted
                 then MoveTo canvasX canvasY
                        # polarPath formulaFunc centerX centerY sc maxAngle (angle + 1 / 2) True
                 else LineTo canvasX canvasY
                        # polarPath formulaFunc centerX centerY sc maxAngle (angle + 1 / 2) True
      else [])"
  by pat_completeness auto
termination
  by (relation "measure (\<lambda>(f, cx, cy, sc, maxAngle, angle, started).
                  nat \<lceil>2 * (maxAngle - angle)\<rceil>)")
     (simp_all only: in_measure prod.case half_step_decreases wf_measure)

definition createPolarGraph :: "platform \<Rightarrow> pg_config \<Rightarrow> chart_result" where
  "createPolarGraph io config =
     (let path = pathOrDefault io (pg_path config) ''polarGraph'' in
      if falsyString (pg_formula config) then None
      else
        case compile io ''t'' (''with(Math){return '' @ the (pg_formula config) @ ''}'') of
          None \<Rightarrow> None
        | Some formulaFunc \<Rightarrow>
            if \<not> createBitmap_ok io (pg_width config) (pg_height config) then None
            else
              let width = Num (real (pg_width config));
                  height = Num (real (pg_height config));
                  maxAngle = 360 * pg_rotations config;
                  bgPaint = (new_Paint False)\<lparr>argb := hexToARGB (pg_backgroundColor config)\<rparr>;
                  axisPaint = (new_Paint False)
                    \<lparr>argb := hexToARGB (pg_axisColor config), strokeWidth := 2\<rparr>;
                  graphPaint = (new_Paint True)
                    \<lparr>argb := hexToARGB (pg_lineColor config), strokeWidth := 5, style := STROKE\<rparr>;
                  centerX = width / Num 2;
                  centerY = height / Num 2;
                  graph = polarPath formulaFunc centerX centerY (Num (pg_scale config))
                            maxAngle 0 False
              in if \<not> openStream_ok io path then None
                 else Some (path,
                   [DrawPaint bgPaint,
                    DrawLine (Num 0) centerY width centerY axisPaint,
                    DrawLine centerX (Num 0) centerX height axisPaint,
                    DrawPath graph graphPaint]))"

section \<open>createLineChart\<close>

record padding =
  pad_top :: real
  pad_right :: real
  pad_bottom :: real
  pad_left :: real

record lc_config =
  lc_path :: "string option"
  lc_data :: "point list option"
  lc_width :: nat
  lc_height :: nat
  lc_padding :: padding
  lc_backgroundColor :: string
  lc_lineColor :: string
  lc_pointColor :: string
  lc_gridColor :: string
  lc_textColor :: string
  lc_pointRadius :: real
  lc_strokeWidth :: real

definition lc_defaults :: lc_config where
  "lc_defaults =
     \<lparr>lc_path = None, lc_data = None, lc_width = 800, lc_height = 600,
      lc_padding = \<lparr>pad_top = 50, pad_right = 50, pad_bottom = 70, pad_left = 80\<rparr>,
      lc_backgroundColor = ''#FFFFFF'', lc_lineColor = ''#007BFF'', lc_pointColor = ''#DC3545'',
      lc_gridColor = ''#E9ECEF'', lc_textColor = ''#495057'', lc_pointRadius = 8,
      lc_strokeWidth = 5\<rparr>"

text \<open>The loop that finds the least and the greatest \<open>y\<close>, started at \<open>Infinity\<close> and \<open>-Infinity\<close>.\<close>

fun minMaxY :: "point list \<Rightarrow> jsnum \<Rightarrow> jsnum \<Rightarrow> jsnum \<times> jsnum" where
  "minMaxY [] minY maxY = (minY, maxY)"
| "minMaxY (p # ps) minY maxY =
     (let y = Num (py p) in
      minMaxY ps (if y < minY then y else minY) (if y > maxY then y else maxY))"

definition createLineChart :: "platform \<Rightarrow> lc_config \<Rightarrow> chart_result" where
  "createLineChart io config =
     (let path = pathOrDefault io (lc_path config) ''lineChart'' in
      case lc_data config of
        None \<Rightarrow> None
      | Some data \<Rightarrow>
          if length data < 2 then None
          else
            let width = Num (real (lc_width config));
                height = Num (real (lc_height config));
                top = Num (pad_top (lc_padding config));
                right = Num (pad_right (lc_padding config));
                bottom = Num (pad_bottom (lc_padding config));
                left = Num (pad_left (lc_padding config));
                dataLen = length data;
                (minY, maxY) = minMaxY data PInf NInf;
                yRange = js_or (maxY - minY) (Num 1);
                chartWidth = width - left - right;
                chartHeight = height - top - bottom;
                xInterval = chartWidth / (Num (real dataLen) - Num 1);
                bgPaint = (new_Paint False)\<lparr>argb := hexToARGB (lc_backgroundColor config)\<rparr>;
                linePaint = (new_Paint True)
                  \<lparr>argb := hexToARGB (lc_lineColor config), style := STROKE,
                   strokeWidth := lc_strokeWidth config\<rparr>;
                pointPaint = (new_Paint True)
                  \<lparr>argb := hexToARGB (lc_pointColor config), style := FILL\<rparr>;
                gridPaint = (new_Paint True)
                  \<lparr>argb := hexToARGB (lc_gridColor config), strokeWidth := 2\<rparr>;
                yLabelPaint = (new_Paint True)
                  \<lparr>argb := hexToARGB (lc_textColor config), textSize := 24, textAlign := RIGHT\<rparr>;
                xLabelPaint = (new_Paint True)
                  \<lparr>argb := hexToARGB (lc_textColor config), textSize := 24, textAlign := CENTER\<rparr>
            in if \<not> createBitmap_ok io (lc_width config) (lc_height config) then None
               else
                 let yPosOf = (\<lambda>v. height - bottom - ((v - minY) / yRange) * chartHeight);
                     xPosOf = (\<lambda>i. left + Num (real i) * xInterval);
                     grid = concat (map (\<lambda>i.
                        let v = minY + (yRange / Num 5) * Num (real i);
                            yPos = yPosOf v
                        in [DrawLine left yPos (width - right) yPos gridPaint,
                            DrawText [ToFixed1 v] (left - Num 10) (yPos + Num 8) yLabelPaint])
                       [0 ..< 6]);
                     xLabels = map (\<lambda>i.
                        DrawText [OfNum (px (data ! i))] (xPosOf i) (height - bottom + Num 30)
                          xLabelPaint)
                       [0 ..< dataLen];
                     linePath =
                       MoveTo left (yPosOf (Num (py (data ! 0))))
                         # map (\<lambda>i. LineTo (xPosOf i) (yPosOf (Num (py (data ! i)))))
                             [1 ..< dataLen];
                     points = map (\<lambda>i.
                        DrawCircle (xPosOf i) (yPosOf (Num (py (data ! i))))
                          (Num (lc_pointRadius config)) pointPaint)
                       [0 ..< dataLen]
                 in if \<not> openStream_ok io path then None
                    else Some (path,
                      [DrawPaint bgPaint] @ grid @ xLabels @ [DrawPath linePath linePaint]
                        @ points))"

section \<open>createPieChart\<close>

text \<open>An entry \<open>{label, value}\<close> of a pie or bar chart.\<close>

record item =
  item_label :: string
  item_value :: real

record pc_config =
  pc_path :: "string option"
  pc_data :: "item list option"
  pc_width :: nat
  pc_height :: nat
  pc_backgroundColor :: string
  pc_textColor :: string
  pc_colors :: "string list"

definition pc_defaults :: pc_config where
  "pc_defaults =
     \<lparr>pc_path = None, pc_data = None, pc_width = 1200, pc_height = 800,
      pc_backgroundColor = ''#FFFFFF'', pc_textColor = ''#000000'',
      pc_colors = [''#FF6384'', ''#36A2EB'', ''#FFCE56'', ''#4BC0C0'', ''#9966FF'', ''#FF9F40'']\<rparr>"

text \<open>
  The text drawn for a pie without data, a Korean sentence that reads "There is no
  data.", as its UTF-8 bytes.
\<close>

definition pieEmptyText :: string where
  "pieEmptyText =
     [CHR 0xEB, CHR 0x8D, CHR 0xB0, CHR 0xEC, CHR 0x9D, CHR 0xB4, CHR 0xED, CHR 0x84, CHR 0xB0,
      CHR 0xEA, CHR 0xB0, CHR 0x80, CHR 0x20, CHR 0xEC, CHR 0x97, CHR 0x86, CHR 0xEC, CHR 0x8A,
      CHR 0xB5, CHR 0xEB, CHR 0x8B, CHR 0x88, CHR 0xEB, CHR 0x8B, CHR 0xA4, CHR 0x2E]"

text \<open>\<open>cur.value\<close>: the caller's number, as a double.\<close>

definition valueOf :: "item \<Rightarrow> jsnum" where
  "valueOf it = round64 (item_value it)"

text \<open>\<open>data.reduce((acc, cur) => acc + cur.value, 0)\<close>, each addition on doubles.\<close>

definition totalValue :: "item list \<Rightarrow> jsnum" where
  "totalValue data = fold (\<lambda>cur acc. add64 acc (valueOf cur)) data (Num 0)"

text \<open>
  The rendering loop of the slices, with its running \<open>i\<close>, \<open>startAngle\<close> and \<open>legendY\<close>.
  With an empty \<open>colors\<close> array \<open>sliceARGBs[i % 0]\<close> is \<open>undefined\<close> and reading its
  element 0 throws.
\<close>

fun pieSlices ::
  "int list list \<Rightarrow> jsnum \<Rightarrow> jsnum \<times> jsnum \<times> jsnum \<times> jsnum \<Rightarrow> jsnum \<Rightarrow> paint
     \<Rightarrow> item list \<Rightarrow> nat \<Rightarrow> jsnum \<Rightarrow> jsnum \<Rightarrow> cmd list option" where
  "pieSlices sliceARGBs totalV chartRect legendX textPaint [] i startAngle legendY = Some []"
| "pieSlices sliceARGBs totalV chartRect legendX textPaint (it # items) i startAngle legendY =
     (let sweepAngle = (Num (item_value it) / totalV) * Num 360 in
      if sliceARGBs = [] then None
      else
        let rgb = sliceARGBs ! (i mod length sliceARGBs);
            slicePaint = (new_Paint True)\<lparr>style := FILL, argb := rgb\<rparr>;
            legendPaint = (new_Paint True)\<lparr>style := FILL, argb := rgb\<rparr>;
            percentage = Num (item_value it) / totalV * Num 100
        in case chartRect of (l, t, r, b) \<Rightarrow>
             map_option
               (\<lambda>rest.
                  [DrawArc l t r b startAngle sweepAngle True slicePaint,
                   DrawRect legendX legendY (legendX + Num 40) (legendY + Num 40) legendPaint,
                   DrawText [Lit (item_label it), Lit '' ('', ToFixed1 percentage, Lit ''%)'']
                     (legendX + Num 60) (legendY + Num 35) textPaint] @ rest)
               (pieSlices sliceARGBs totalV chartRect legendX textPaint items (i + 1)
                  (startAngle + sweepAngle) (legendY + Num 60)))"

definition createPieChart :: "platform \<Rightarrow> pc_config \<Rightarrow> chart_result" where
  "createPieChart io config =
     (let path = pathOrDefault io (pc_path config) ''pieChart'' in
      case pc_data config of
        None \<Rightarrow> None
      | Some data \<Rightarrow>
          let width = Num (real (pc_width config));
              height = Num (real (pc_height config));
              sliceARGBs = map hexToARGB (pc_colors config);
              backgroundPaint = (new_Paint True)\<lparr>argb := hexToARGB (pc_backgroundColor config)\<rparr>;
              textPaint = (new_Paint True)
                \<lparr>argb := hexToARGB (pc_textColor config), textSize := 35, textAlign := LEFT\<rparr>
          in if \<not> createBitmap_ok io (pc_width config) (pc_height config) then None
             else
               let totalV = totalValue data;
                   drawn =
                     (if totalV = Num 0
                      then Some [DrawText [Lit pieEmptyText] (width / Num 2) (height / Num 2)
                                   (textPaint\<lparr>textAlign := CENTER\<rparr>)]
                      else
                        let chartRadius =
                              Num (real (min (pc_width config) (pc_height config))) * Num (35 / 100);
                            centerX = width * Num (3 / 10);
                            centerY = height / Num 2;
                            chartRect = (centerX - chartRadius, centerY - chartRadius,
                                         centerX + chartRadius, centerY + chartRadius);
                            legendX = centerX + chartRadius + Num 80;
                            legendY = (height - (Num (real (length data)) * Num 60)) / Num 2
                        in pieSlices sliceARGBs totalV chartRect legendX textPaint data 0
                             (Num (- 90)) legendY)
               in case drawn of
                    None \<Rightarrow> None
                  | Some cmds \<Rightarrow>
                      if \<not> openStream_ok io path then None
                      else Some (path, DrawPaint backgroundPaint # cmds))"

section \<open>createBarChart\<close>








section \<open>createScatterPlot\<close>

record sp_config =
  sp_path :: "string option"
  sp_data :: "point list option"
  sp_width :: nat
  sp_height :: nat
  sp_padding :: real
  sp_title :: string
  sp_xLabel :: string
  sp_yLabel :: string
  sp_pointSize :: real
  sp_fontSize :: real
  sp_backgroundColor :: string
  sp_axisColor :: string
  sp_textColor :: string
  sp_pointColor :: string
  sp_showConfidenceInterval :: bool
  sp_regressionLineColor :: string
  sp_confidenceIntervalColor :: string
  sp_confidenceIntervalResolution :: real

text \<open>
  The default title and axis labels are Korean ("scatter plot", "X axis", "Y axis"), and so
  is the text drawn for an empty data array ("There is no data to display."); all four
  are given as their UTF-8 bytes.
\<close>

definition scatterEmptyText :: string where
  "scatterEmptyText =
     [CHR 0xED, CHR 0x91, CHR 0x9C, CHR 0xEC, CHR 0x8B, CHR 0x9C, CHR 0xED, CHR 0x95, CHR 0xA0,
      CHR 0x20, CHR 0xEB, CHR 0x8D, CHR 0xB0, CHR 0xEC, CHR 0x9D, CHR 0xB4, CHR 0xED, CHR 0x84,
      CHR 0xB0, CHR 0xEA, CHR 0xB0, CHR 0x80, CHR 0x20, CHR 0xEC, CHR 0x97, CHR 0x86, CHR 0xEC,
      CHR 0x8A, CHR 0xB5, CHR 0xEB, CHR 0x8B, CHR 0x88, CHR 0xEB, CHR 0x8B, CHR 0xA4, CHR 0x2E]"

definition sp_defaults :: sp_config where
  "sp_defaults =
     \<lparr>sp_path = None, sp_data = None, sp_width = 1000, sp_height = 800, sp_padding = 100,
      sp_title =
        [CHR 0xEC, CHR 0x82, CHR 0xB0, CHR 0xEC, CHR 0xA0, CHR 0x90, CHR 0xEB, CHR 0x8F, CHR 0x84,
         CHR 0x20, CHR 0xEA, CHR 0xB7, CHR 0xB8, CHR 0xEB, CHR 0x9E, CHR 0x98, CHR 0xED, CHR 0x94,
         CHR 0x84],
      sp_xLabel = [CHR 0x58, CHR 0xEC, CHR 0xB6, CHR 0x95],
      sp_yLabel = [CHR 0x59, CHR 0xEC, CHR 0xB6, CHR 0x95],
      sp_pointSize = 10, sp_fontSize = 40, sp_backgroundColor = ''#FFFFFF'',
      sp_axisColor = ''#000000'', sp_textColor = ''#333333'', sp_pointColor = ''#FF6347'',
      sp_showConfidenceInterval = False, sp_regressionLineColor = ''#0000FF'',
      sp_confidenceIntervalColor = ''#4682B4'', sp_confidenceIntervalResolution = 100\<rparr>"

text \<open>The loop that finds the bounds of the data, started at \<open>Infinity\<close> and \<open>-Infinity\<close>.\<close>

fun minMaxXY ::
  "point list \<Rightarrow> jsnum \<Rightarrow> jsnum \<Rightarrow> jsnum \<Rightarrow> jsnum \<Rightarrow> jsnum \<times> jsnum \<times> jsnum \<times> jsnum" where
  "minMaxXY [] minX maxX minY maxY = (minX, maxX, minY, maxY)"
| "minMaxXY (p # ps) minX maxX minY maxY =
     minMaxXY ps
       (if Num (px p) < minX then Num (px p) else minX)
       (if Num (px p) > maxX then Num (px p) else maxX)
       (if Num (py p) < minY then Num (py p) else minY)
       (if Num (py p) > maxY then Num (py p) else maxY)"

text \<open>
  The upper and the lower boundary point of the confidence band at step \<open>i\<close> of
  \<open>for (let i = 0; i <= resolution; i++)\<close>. The arguments \<open>tx\<close> and \<open>ty\<close> are the closures
  \<open>toPixelX\<close> and \<open>toPixelY\<close>.
\<close>

definition bandPoint ::
  "regression \<Rightarrow> (jsnum \<Rightarrow> jsnum) \<Rightarrow> (jsnum \<Rightarrow> jsnum) \<Rightarrow> jsnum \<Rightarrow> jsnum \<Rightarrow> real \<Rightarrow> nat
     \<Rightarrow> (jsnum \<times> jsnum) \<times> (jsnum \<times> jsnum)" where
  "bandPoint r tx ty minX xRange resolution i =
     (let currentX = minX + (xRange / Num resolution) * Num (real i);
          predictedY = slope r * currentX + intercept r;
          se = residualStdErr r
                 * js_sqrt ((Num 1 / Num (real (npts r)))
                     + ((currentX - meanX r) * (currentX - meanX r)) / Sxx r);
          marginOfError = Num (196 / 100) * se
      in ((tx currentX, ty (predictedY + marginOfError)),
          (tx currentX, ty (predictedY - marginOfError))))"

text \<open>
  The closed polygon: the upper points forwards, the lower points backwards. Without any
  point (a negative resolution) \<open>upperPoints[0].x\<close> throws.
\<close>

definition bandPath :: "((jsnum \<times> jsnum) \<times> (jsnum \<times> jsnum)) list \<Rightarrow> path_op list option" where
  "bandPath pts =
     (case map fst pts of
        [] \<Rightarrow> None
      | u # us \<Rightarrow>
          Some (MoveTo (fst u) (snd u)
                  # map (\<lambda>q. LineTo (fst q) (snd q)) us
                  @ map (\<lambda>q. LineTo (fst q) (snd q)) (rev (map snd pts))
                  @ [Close]))"

text \<open>
  The trend line and the band, drawn when \<open>showConfidenceInterval\<close> is set. \<open>None\<close> is an
  exception thrown while the band is built.
\<close>

definition regressionCmds ::
  "sp_config \<Rightarrow> point list \<Rightarrow> (jsnum \<Rightarrow> jsnum) \<Rightarrow> (jsnum \<Rightarrow> jsnum) \<Rightarrow> jsnum \<Rightarrow> jsnum \<Rightarrow> jsnum
     \<Rightarrow> cmd list option" where
  "regressionCmds config data tx ty minX maxX xRange =
     (if \<not> sp_showConfidenceInterval config then Some []
      else
        case calculateLinearRegression data of
          None \<Rightarrow> Some []
        | Some r \<Rightarrow>
            let width = Num (real (sp_width config));
                height = Num (real (sp_height config));
                p = Num (sp_padding config);
                regressionPaint = (new_Paint True)
                  \<lparr>argb := hexToARGB (sp_regressionLineColor config), strokeWidth := 4\<rparr>;
                ciColor = hexToARGB (sp_confidenceIntervalColor config);
                ciPaint = (new_Paint True)\<lparr>argb := [60, ciColor ! 1, ciColor ! 2, ciColor ! 3]\<rparr>;
                startY = slope r * minX + intercept r;
                endY = slope r * maxX + intercept r;
                trend = DrawLine (tx minX) (ty startY) (tx maxX) (ty endY)
                          regressionPaint
            in if npts r > 2 \<and> Sxx r > Num 0
               then
                 let resolution = sp_confidenceIntervalResolution config;
                     pts = map (bandPoint r tx ty minX xRange resolution)
                             [0 ..< nat (\<lfloor>resolution\<rfloor> + 1)]
                 in case bandPath pts of
                      None \<Rightarrow> None
                    | Some ciPath \<Rightarrow>
                        Some [trend, Save, ClipRect p p (width - p) (height - p),
                              DrawPath ciPath ciPaint, Restore]
               else Some [trend])"

text \<open>The closures \<open>toPixelX\<close> and \<open>toPixelY\<close>, with the variables they capture.\<close>

definition toPixelX :: "sp_config \<Rightarrow> jsnum \<Rightarrow> jsnum \<Rightarrow> jsnum \<Rightarrow> jsnum" where
  "toPixelX config minX xRange v =
     (let p = Num (sp_padding config);
          drawableWidth = Num (real (sp_width config)) - Num 2 * p
      in p + ((v - minX) / xRange) * drawableWidth)"

definition toPixelY :: "sp_config \<Rightarrow> jsnum \<Rightarrow> jsnum \<Rightarrow> jsnum \<Rightarrow> jsnum" where
  "toPixelY config minY yRange v =
     (let p = Num (sp_padding config);
          height = Num (real (sp_height config));
          drawableHeight = height - Num 2 * p
      in (height - p) - ((v - minY) / yRange) * drawableHeight)"

text \<open>The axes, the title and the two axis labels (the second one rotated).\<close>

definition scatterFrame :: "sp_config \<Rightarrow> paint \<Rightarrow> paint \<Rightarrow> cmd list" where
  "scatterFrame config axisPaint textPaint =
     (let width = Num (real (sp_width config));
          height = Num (real (sp_height config));
          p = Num (sp_padding config)
      in [DrawLine p (height - p) (width - p) (height - p) axisPaint,
          DrawLine p (height - p) p p axisPaint,
          DrawText [Lit (sp_title config)] (width / Num 2) (p / Num 2) textPaint,
          DrawText [Lit (sp_xLabel config)] (width / Num 2) (height - p / Num 4) textPaint,
          Save,
          Rotate (Num (- 90)) (p / Num (5 / 2)) (height / Num 2),
          DrawText [Lit (sp_yLabel config)] (p / Num (5 / 2)) (height / Num 2) textPaint,
          Restore])"

text \<open>The last loop: one circle for each data point.\<close>

definition scatterPoints ::
  "sp_config \<Rightarrow> (jsnum \<Rightarrow> jsnum) \<Rightarrow> (jsnum \<Rightarrow> jsnum) \<Rightarrow> paint \<Rightarrow> point list \<Rightarrow> cmd list" where
  "scatterPoints config tx ty pointPaint data =
     map (\<lambda>pt. DrawCircle (tx (Num (px pt))) (ty (Num (py pt))) (Num (sp_pointSize config))
                 pointPaint) data"

definition createScatterPlot :: "platform \<Rightarrow> sp_config \<Rightarrow> chart_result" where
  "createScatterPlot io config =
     (let path = pathOrDefault io (sp_path config) ''scatterPlot'' in
      case sp_data config of
        None \<Rightarrow> None
      | Some data \<Rightarrow>
          if \<not> createBitmap_ok io (sp_width config) (sp_height config) then None
          else
            let width = Num (real (sp_width config));
                height = Num (real (sp_height config));
                bgPaint = (new_Paint False)\<lparr>argb := hexToARGB (sp_backgroundColor config)\<rparr>;
                axisPaint = (new_Paint False)
                  \<lparr>argb := hexToARGB (sp_axisColor config), strokeWidth := 5\<rparr>;
                textPaint = (new_Paint True)
                  \<lparr>argb := hexToARGB (sp_textColor config), textSize := sp_fontSize config,
                   textAlign := CENTER\<rparr>;
                pointPaint = (new_Paint True)\<lparr>argb := hexToARGB (sp_pointColor config)\<rparr>;
                drawn =
                  (if length data = 0
                   then Some [DrawText [Lit scatterEmptyText] (width / Num 2) (height / Num 2)
                                textPaint]
                   else
                     case minMaxXY data PInf NInf PInf NInf of
                       (minX, maxX, minY, maxY) \<Rightarrow>
                         let xRange = js_or (maxX - minX) (Num 1);
                             yRange = js_or (maxY - minY) (Num 1);
                             tx = toPixelX config minX xRange;
                             ty = toPixelY config minY yRange
                         in map_option
                              (\<lambda>reg. scatterFrame config axisPaint textPaint @ reg
                                       @ scatterPoints config tx ty pointPaint data)
                              (regressionCmds config data tx ty minX maxX xRange))
            in case drawn of
                 None \<Rightarrow> None
               | Some cmds \<Rightarrow>
                   if \<not> openStream_ok io path then None
                   else Some (path, DrawPaint bgPaint # cmds))"

section \<open>createNormalDistributionChart\<close>

text \<open>An entry \<open>{level, color}\<close> of \<open>confidenceLevels\<close>.\<close>

record ci =
  ci_level :: real
  ci_color :: string

record nd_config =
  nd_path :: "string option"
  nd_mean :: real
  nd_stdDev :: real
  nd_width :: nat
  nd_height :: nat
  nd_orientation :: string
  nd_ciResolution :: "real option"
  nd_backgroundColor :: string
  nd_axisColor :: string
  nd_lineColor :: string
  nd_confidenceLevels :: "ci list"

definition nd_defaults :: nd_config where
  "nd_defaults =
     \<lparr>nd_path = None, nd_mean = 0, nd_stdDev = 1, nd_width = 1024, nd_height = 600,
      nd_orientation = ''vertical'', nd_ciResolution = None, nd_backgroundColor = ''#FFFFFF'',
      nd_axisColor = ''#969696'', nd_lineColor = ''#007AFF'',
      nd_confidenceLevels =
        [\<lparr>ci_level = 95 / 100, ci_color = ''#504287F5''\<rparr>,
         \<lparr>ci_level = 68 / 100, ci_color = ''#7877BEFD''\<rparr>]\<rparr>"

text \<open>
  \<open>const Z_SCORES = { 0.68: 1.0, 0.95: 1.96, 0.99: 2.58 }\<close>, read as
  \<open>Z_SCORES[ci.level]\<close>: \<open>None\<close> is \<open>undefined\<close>.
\<close>

definition Z_SCORES :: "real \<Rightarrow> real option" where
  "Z_SCORES = [68 / 100 \<mapsto> 1, 95 / 100 \<mapsto> 196 / 100, 99 / 100 \<mapsto> 258 / 100]"

text \<open>
  \<open>confidenceLevels.slice().sort((a, b) => b.level - a.level)\<close>: a sort by descending
  level, taken to be stable (entries of equal level keep their order, as ECMAScript 2019
  requires of \<open>Array.prototype.sort\<close>). The \<open>argb\<close> that the following \<open>map\<close> adds to
  each entry is computed where it is used.
\<close>

definition sortedConfidenceLevels :: "ci list \<Rightarrow> ci list" where
  "sortedConfidenceLevels confidenceLevels = sort_key (\<lambda>c. - ci_level c) confidenceLevels"

fun js_exp :: "jsnum \<Rightarrow> jsnum" where
  "js_exp (Num a) = Num (exp a)"
| "js_exp PInf = PInf"
| "js_exp NInf = Num 0"
| "js_exp NaN = NaN"

text \<open>\<open>ChartUtils.pdf\<close>, the density of the normal distribution.\<close>

definition pdf :: "jsnum \<Rightarrow> real \<Rightarrow> real \<Rightarrow> jsnum" where
  "pdf xv mean stdDev =
     (if stdDev \<le> 0 then Num 0
      else
        let diff = xv - Num mean;
            twoSigma2 = Num (2 * stdDev * stdDev);
            coeff = Num 1 / (Num stdDev * js_sqrt (Num (2 * pi)))
        in coeff * js_exp (- (diff * diff) / twoSigma2))"

text \<open>
  Reading \<open>pdfCache[p]\<close> in an arithmetic expression: an index that is no integer of the
  array's range gives \<open>undefined\<close>, which counts as \<open>NaN\<close>.
\<close>

definition cacheGet :: "jsnum list \<Rightarrow> jsnum \<Rightarrow> jsnum" where
  "cacheGet cache p =
     (case p of
        Num r \<Rightarrow>
          if 0 \<le> r \<and> r < real (length cache) \<and> of_int \<lfloor>r\<rfloor> = r then cache ! nat \<lfloor>r\<rfloor> else NaN
      | _ \<Rightarrow> NaN)"

text \<open>What the band loop reads: sizes, the data range, the cache and its maximum.\<close>

record band_context =
  ctx_vertical :: bool
  ctx_size :: jsnum
  ctx_canvasWidth :: jsnum
  ctx_canvasHeight :: jsnum
  ctx_mean :: real
  ctx_sd :: real
  ctx_minXData :: jsnum
  ctx_xDataRange :: jsnum
  ctx_pdfCache :: "jsnum list"
  ctx_maxYData :: jsnum
  ctx_resolution :: real

text \<open>The polygon of one confidence band with z-score \<open>z\<close>.\<close>

definition ciBandPath :: "band_context \<Rightarrow> real \<Rightarrow> path_op list" where
  "ciBandPath ctx z =
     (let size = ctx_size ctx;
          width = ctx_canvasWidth ctx;
          height = ctx_canvasHeight ctx;
          ciMinX = Num (ctx_mean ctx - z * ctx_sd ctx);
          ciMaxX = Num (ctx_mean ctx + z * ctx_sd ctx);
          steps = [0 ..< nat (\<lfloor>ctx_resolution ctx\<rfloor> + 1)]
      in if ctx_vertical ctx
         then
           let startPixel = js_floor (size * (ciMinX - ctx_minXData ctx) / ctx_xDataRange ctx);
               endPixel = js_ceil (size * (ciMaxX - ctx_minXData ctx) / ctx_xDataRange ctx)
           in [MoveTo startPixel height]
              @ concat (map (\<lambda>i.
                  let p = js_round (startPixel + (endPixel - startPixel)
                                      * (Num (real i) / Num (ctx_resolution ctx)))
                  in if p < Num 0 \<or> p \<ge> size then []
                     else [LineTo p (height - (cacheGet (ctx_pdfCache ctx) p / ctx_maxYData ctx)
                                               * (height * Num (9 / 10)))]) steps)
              @ [LineTo endPixel height, Close]
         else
           let startPixel = js_floor (size * (ciMaxX - ctx_minXData ctx) / ctx_xDataRange ctx);
               endPixel = js_ceil (size * (ciMinX - ctx_minXData ctx) / ctx_xDataRange ctx)
           in [MoveTo (Num 0) (size - startPixel)]
              @ concat (map (\<lambda>i.
                  let p = js_round (startPixel + (endPixel - startPixel)
                                      * (Num (real i) / Num (ctx_resolution ctx)))
                  in if p < Num 0 \<or> p \<ge> size then []
                     else [LineTo ((cacheGet (ctx_pdfCache ctx) p / ctx_maxYData ctx)
                                     * (width * Num (9 / 10))) (size - p)]) steps)
              @ [LineTo (Num 0) (size - endPixel), Close])"

text \<open>
  \<open>for (let ci of sortedConfidenceLevels)\<close>: a level without a z-score is skipped by
  \<open>if (!z) continue\<close>; for the others the band is drawn with the level's colour.
\<close>

fun drawBands :: "band_context \<Rightarrow> ci list \<Rightarrow> cmd list" where
  "drawBands ctx [] = []"
| "drawBands ctx (c # cs) =
     (case Z_SCORES (ci_level c) of
        None \<Rightarrow> drawBands ctx cs
      | Some z \<Rightarrow>
          if z = 0 then drawBands ctx cs
          else DrawPath (ciBandPath ctx z)
                 ((new_Paint True)\<lparr>style := FILL, argb := hexToARGB (ci_color c)\<rparr>)
               # drawBands ctx cs)"

text \<open>
  The variables that are set before the band loop: the sizes, the plotted range of
  \<open>3.5\<close> standard deviations around the mean, the cache of the density at every pixel of
  the primary axis (a \<open>Float32Array\<close>) and the greatest density seen, replaced by 1 when
  it is 0.
\<close>

definition bandContext :: "platform \<Rightarrow> nd_config \<Rightarrow> band_context" where
  "bandContext io config =
     (let mean = nd_mean config;
          stdDev = nd_stdDev config;
          vertical = (nd_orientation config = ''vertical'');
          primaryAxisSize = (if vertical then nd_width config else nd_height config);
          ciResolution =
            (case nd_ciResolution config of
               None \<Rightarrow> real primaryAxisSize
             | Some r \<Rightarrow> if r \<noteq> 0 then r else real primaryAxisSize);
          size = Num (real primaryAxisSize);
          range = Num (35 / 10 * stdDev);
          minXData = Num mean - range;
          maxXData = Num mean + range;
          xDataRange = maxXData - minXData;
          pdfAt = (\<lambda>i. pdf (minXData + xDataRange * (Num (real i) / (size - Num 1)))
                         mean stdDev);
          pdfCache = map (\<lambda>i. fround io (pdfAt i)) [0 ..< primaryAxisSize];
          maxSeen = fold (\<lambda>i m. if pdfAt i > m then pdfAt i else m)
                      [0 ..< primaryAxisSize] (Num 0);
          maxYData = (if maxSeen = Num 0 then Num 1 else maxSeen)
      in \<lparr>ctx_vertical = vertical, ctx_size = size,
          ctx_canvasWidth = Num (real (nd_width config)),
          ctx_canvasHeight = Num (real (nd_height config)),
          ctx_mean = mean, ctx_sd = stdDev, ctx_minXData = minXData,
          ctx_xDataRange = xDataRange, ctx_pdfCache = pdfCache, ctx_maxYData = maxYData,
          ctx_resolution = ciResolution\<rparr>)"

text \<open>The two axes and the curve of the density, drawn after the bands.\<close>

definition ndAxes :: "nd_config \<Rightarrow> cmd list" where
  "ndAxes config =
     (let width = Num (real (nd_width config));
          height = Num (real (nd_height config));
          axisPaint = (new_Paint False)
            \<lparr>argb := hexToARGB (nd_axisColor config), strokeWidth := 2\<rparr>
      in if nd_orientation config = ''vertical''
         then [DrawLine (Num 0) (height - Num 1) width (height - Num 1) axisPaint,
               DrawLine (width / Num 2) (Num 0) (width / Num 2) height axisPaint]
         else [DrawLine (Num 1) (Num 0) (Num 1) height axisPaint,
               DrawLine (Num 0) (height / Num 2) width (height / Num 2) axisPaint])"

definition ndGraphPath :: "nd_config \<Rightarrow> band_context \<Rightarrow> path_op list" where
  "ndGraphPath config ctx =
     (let width = Num (real (nd_width config));
          height = Num (real (nd_height config));
          pdfCache = ctx_pdfCache ctx;
          maxYData = ctx_maxYData ctx
      in if nd_orientation config = ''vertical''
         then MoveTo (Num 0)
                (height - (cacheGet pdfCache (Num 0) / maxYData) * (height * Num (9 / 10)))
              # map (\<lambda>i. LineTo (Num (real i))
                      (height - (cacheGet pdfCache (Num (real i)) / maxYData)
                                  * (height * Num (9 / 10))))
                  [1 ..< nd_width config]
         else MoveTo ((cacheGet pdfCache (Num 0) / maxYData) * (width * Num (9 / 10))) height
              # map (\<lambda>i. LineTo
                      ((cacheGet pdfCache (Num (real i)) / maxYData) * (width * Num (9 / 10)))
                      (height - Num (real i)))
                  [1 ..< nd_height config])"

definition createNormalDistributionChart :: "platform \<Rightarrow> nd_config \<Rightarrow> chart_result" where
  "createNormalDistributionChart io config =
     (let path = pathOrDefault io (nd_path config) ''normalDistributionChart'';
          sorted = sortedConfidenceLevels (nd_confidenceLevels config)
      in if \<not> createBitmap_ok io (nd_width config) (nd_height config) then None
         else
           let bgPaint = (new_Paint False)\<lparr>argb := hexToARGB (nd_backgroundColor config)\<rparr>;
               linePaint = (new_Paint True)
                 \<lparr>argb := hexToARGB (nd_lineColor config), strokeWidth := 5, style := STROKE\<rparr>;
               ctx = bandContext io config;
               bands = drawBands ctx sorted
           in if \<not> openStream_ok io path then None
              else Some (path,
                [DrawPaint bgPaint] @ bands @ ndAxes config
                  @ [DrawPath (ndGraphPath config ctx) linePaint]))"

section \<open>Auxiliary definitions for the properties\<close>

text \<open>A platform on which every bitmap and every file can be created, for the examples.\<close>

definition idealPlatform :: platform where
  "idealPlatform =
     \<lparr>now = 0, createBitmap_ok = (\<lambda>w h. True), openStream_ok = (\<lambda>p. True),
      compile = (\<lambda>param body. Some (\<lambda>v. Some v)), fround = (\<lambda>v. v)\<rparr>"

text \<open>Whether a canvas call strokes or fills a path, and whether it sets a clip.\<close>

fun drawsPath :: "cmd \<Rightarrow> bool" where
  "drawsPath (DrawPath ops pt) = True"
| "drawsPath c = False"

fun clips :: "cmd \<Rightarrow> bool" where
  "clips (ClipRect l t r b) = True"
| "clips c = False"






text \<open>Whether a canvas call draws an arc, that is a slice of a pie.\<close>

fun isArc :: "cmd \<Rightarrow> bool" where
  "isArc (DrawArc l t r b s w u pn) = True"
| "isArc c = False"

text \<open>
  Whether a confidence level is one of the keys of \<open>Z_SCORES\<close>, and the canvas call that
  \<open>createNormalDistributionChart\<close> issues for the band of a supported level.
\<close>

definition supported :: "ci \<Rightarrow> bool" where
  "supported c = (ci_level c \<in> {68 / 100, 95 / 100, 99 / 100})"

definition bandOf :: "band_context \<Rightarrow> ci \<Rightarrow> cmd" where
  "bandOf ctx c =
     DrawPath (ciBandPath ctx (the (Z_SCORES (ci_level c))))
       ((new_Paint True)\<lparr>style := FILL, argb := hexToARGB (ci_color c)\<rparr>)"


chapter \<open>Properties\<close>

section \<open>Numbers and the platform\<close>

lemma Num_minus [simp]: "Num a - Num b = Num (a - b)"
  by (simp add: minus_jsnum_def)

lemma js_or_Num [simp]: "js_or (Num a) b = (if a \<noteq> 0 then Num a else b)"
  by (simp add: js_or_def)

lemma idealPlatform_ok [simp]:
  "createBitmap_ok idealPlatform w h" "openStream_ok idealPlatform p" "now idealPlatform = 0"
  by (simp_all add: idealPlatform_def)

lemma pathOrDefault_given [simp]:
  "p \<noteq> [] \<Longrightarrow> pathOrDefault io (Some p) chartName = p"
  by (simp add: pathOrDefault_def falsyString_def)


section \<open>Binary64 arithmetic\<close>

text \<open>Powers of two, and the exponent of a real.\<close>

lemma two_powi_pos [simp]: "0 < (2::real) powi k"
  by (simp add: zero_less_power_int)

lemma two_powi_nat: "0 \<le> k \<Longrightarrow> (2::real) powi k = 2 ^ nat k"
  by (simp add: power_int_def)

lemma two_powi_neg: "k \<le> 0 \<Longrightarrow> (2::real) powi k = 1 / 2 ^ nat (- k)"
  by (cases "k = 0") (simp_all add: power_int_def field_simps)

lemma expo_unique:
  assumes lo: "2 powi k \<le> \<bar>x\<bar>" and hi: "\<bar>x\<bar> < 2 powi (k + 1)"
  shows "expo x = k"
proof (cases "0 \<le> k")
  case True
  have "(1::real) \<le> 2 powi k" using True by (simp add: two_powi_nat)
  with lo have one: "1 \<le> \<bar>x\<bar>" by linarith
  define n where "n = \<lfloor>\<bar>x\<bar>\<rfloor>"
  have "(2::real) ^ nat k \<le> \<bar>x\<bar>" using lo True by (simp add: two_powi_nat)
  then have "(2::int) ^ nat k \<le> n"
    unfolding n_def by (simp add: le_floor_iff)
  moreover have "\<bar>x\<bar> < (2::real) ^ nat (k + 1)" using hi True by (simp add: two_powi_nat)
  then have "n < (2::int) ^ nat (k + 1)"
    unfolding n_def by (simp add: floor_less_iff)
  ultimately have "bitlen n = k + 1"
    using True bitlen_le_iff_power [of n "k + 1"] bitlen_ge_iff_power [of "k + 1" n]
    by (simp add: nat_add_distrib)
  with one show ?thesis by (simp add: expo_def n_def)
next
  case False
  then have k: "k + 1 \<le> 0" by simp
  define j where "j = nat (- k)"
  have j1: "1 \<le> j" using False by (simp add: j_def)
  have nk: "nat (- k) = j" by (simp add: j_def)
  have nk1: "nat (- (k + 1)) = j - 1" using False by (simp add: j_def nat_diff_distrib')
  have pk: "(2::real) powi k = 1 / 2 ^ j"
    using False two_powi_neg [of k] by (simp add: nk)
  have pk1: "(2::real) powi (k + 1) = 1 / 2 ^ (j - 1)"
    using k two_powi_neg [of "k + 1"] by (simp only: nk1)
  have "(2::real) powi (k + 1) \<le> 1" unfolding pk1 by simp
  with hi have lt1: "\<bar>x\<bar> < 1" by linarith
  have xpos: "0 < \<bar>x\<bar>" using lo two_powi_pos [of k] by linarith
  define y where "y = 1 / \<bar>x\<bar>"
  have "\<bar>x\<bar> < 1 / 2 ^ (j - 1)"
    using hi unfolding pk1 .
  then have "2 ^ (j - 1) < y"
    unfolding y_def using xpos by (simp add: field_simps)
  then have "(2::int) ^ (j - 1) < \<lceil>y\<rceil>"
    by (simp add: less_ceiling_iff)
  then have lo': "(2::int) ^ (j - 1) \<le> \<lceil>y\<rceil> - 1" by simp
  have "1 / 2 ^ j \<le> \<bar>x\<bar>"
    using lo unfolding pk .
  then have "y \<le> 2 ^ j"
    unfolding y_def using xpos by (simp add: field_simps)
  then have "\<lceil>y\<rceil> \<le> (2::int) ^ j"
    by (simp add: ceiling_le_iff)
  then have hi': "\<lceil>y\<rceil> - 1 < (2::int) ^ j" by simp
  have "bitlen (\<lceil>y\<rceil> - 1) = int j"
    using j1 lo' hi' bitlen_le_iff_power [of "\<lceil>y\<rceil> - 1" "int j"]
      bitlen_ge_iff_power [of "int j" "\<lceil>y\<rceil> - 1"]
    by simp
  moreover have "k = - int j" using False by (simp add: j_def)
  ultimately show ?thesis using lt1 by (simp add: expo_def y_def)
qed

lemma roundEven_int [simp]: "roundEven (of_int n) = n"
  by (simp add: roundEven_def)


lemma expo_bounds:
  assumes "x \<noteq> 0"
  shows "2 powi expo x \<le> \<bar>x\<bar>" and "\<bar>x\<bar> < 2 powi (expo x + 1)"
proof -
  have "2 powi expo x \<le> \<bar>x\<bar> \<and> \<bar>x\<bar> < 2 powi (expo x + 1)"
  proof (cases "1 \<le> \<bar>x\<bar>")
    case True
    define n where "n = \<lfloor>\<bar>x\<bar>\<rfloor>"
    have n: "0 < n" using True by (simp add: n_def)
    have e: "expo x = bitlen n - 1" using True by (simp add: expo_def n_def)
    have b: "1 \<le> bitlen n" using n by (simp add: bitlen_alt_def)
    from bitlen_bounds [OF n] have lo: "2 ^ nat (bitlen n - 1) \<le> n"
      and hi: "n < 2 ^ nat (bitlen n)" by simp_all
    have "real_of_int (2 ^ nat (bitlen n - 1)) \<le> real_of_int n"
      using lo by (simp only: of_int_le_iff)
    also have "real_of_int n \<le> \<bar>x\<bar>" by (simp add: n_def)
    finally have l: "2 ^ nat (bitlen n - 1) \<le> \<bar>x\<bar>" by simp
    have "n + 1 \<le> 2 ^ nat (bitlen n)" using hi by simp
    then have "real_of_int (n + 1) \<le> real_of_int (2 ^ nat (bitlen n))"
      by (simp only: of_int_le_iff)
    moreover have "\<bar>x\<bar> < real_of_int (n + 1)" unfolding n_def by linarith
    ultimately have h: "\<bar>x\<bar> < 2 ^ nat (bitlen n)" by simp
    from l h b show ?thesis by (simp add: e two_powi_nat)
  next
    case False
    define y where "y = 1 / \<bar>x\<bar>"
    define m where "m = \<lceil>y\<rceil> - 1"
    have xpos: "0 < \<bar>x\<bar>" using assms by simp
    have y1: "1 < y" using False xpos by (simp add: y_def)
    then have m: "0 < m" unfolding m_def by (simp add: less_ceiling_iff)
    have e: "expo x = - bitlen m" using False by (simp add: expo_def m_def y_def)
    have b: "1 \<le> bitlen m" using m by (simp add: bitlen_alt_def)
    from bitlen_bounds [OF m] have lo: "2 ^ nat (bitlen m - 1) \<le> m"
      and hi: "m < 2 ^ nat (bitlen m)" by simp_all
    have "m + 1 \<le> 2 ^ nat (bitlen m)" using hi by simp
    then have "real_of_int (m + 1) \<le> real_of_int (2 ^ nat (bitlen m))"
      by (simp only: of_int_le_iff)
    moreover have "y \<le> real_of_int (m + 1)" unfolding m_def by simp
    ultimately have "y \<le> 2 ^ nat (bitlen m)" by simp
    then have l: "1 / 2 ^ nat (bitlen m) \<le> \<bar>x\<bar>"
      unfolding y_def using xpos by (simp add: field_simps)
    have "(2::real) ^ nat (bitlen m - 1) = real_of_int (2 ^ nat (bitlen m - 1))" by simp
    also have "\<dots> \<le> real_of_int m"
      using lo by (simp only: of_int_le_iff)
    also have "real_of_int m < y" unfolding m_def by linarith
    finally have "2 ^ nat (bitlen m - 1) < y" .
    then have h: "\<bar>x\<bar> < 1 / 2 ^ nat (bitlen m - 1)"
      unfolding y_def using xpos by (simp add: field_simps)
    have n1: "nat (- (- bitlen m)) = nat (bitlen m)" by simp
    have n2: "nat (- (- bitlen m + 1)) = nat (bitlen m - 1)" by simp
    have p1: "(2::real) powi (- bitlen m) = 1 / 2 ^ nat (bitlen m)"
      using b two_powi_neg [of "- bitlen m"] by (simp add: n1)
    have p2: "(2::real) powi (- bitlen m + 1) = 1 / 2 ^ nat (bitlen m - 1)"
      using b two_powi_neg [of "- bitlen m + 1"] by (simp add: n2)
    from l h show ?thesis unfolding e p1 p2 by simp
  qed
  then show "2 powi expo x \<le> \<bar>x\<bar>" and "\<bar>x\<bar> < 2 powi (expo x + 1)" by simp_all
qed

lemma roundEven_cases: "roundEven y = \<lfloor>y\<rfloor> \<or> roundEven y = \<lfloor>y\<rfloor> + 1"
  by (simp add: roundEven_def Let_def)

lemma roundEven_le: "y \<le> of_int n \<Longrightarrow> roundEven y \<le> n"
proof -
  assume a: "y \<le> of_int n"
  show ?thesis
  proof (cases "\<lfloor>y\<rfloor> < n")
    case True
    then show ?thesis using roundEven_cases [of y] by linarith
  next
    case False
    then have "y = of_int n" using a by linarith
    then show ?thesis by simp
  qed
qed

lemma roundEven_ge: "of_int n \<le> y \<Longrightarrow> n \<le> roundEven y"
proof -
  assume "of_int n \<le> y"
  then have "n \<le> \<lfloor>y\<rfloor>" by (simp add: le_floor_iff)
  then show ?thesis using roundEven_cases [of y] by linarith
qed

lemma roundEven_near: "\<bar>of_int (roundEven y) - y\<bar> \<le> 1 / 2"
  by (simp add: roundEven_def Let_def)


lemma two_powi_add: "(2::real) powi (a + b) = 2 powi a * 2 powi b"
  by (simp add: power_int_add)

lemma two_powi_diff: "(2::real) powi (a - b) = 2 powi a / 2 powi b"
  by (simp add: power_int_diff)

lemma two_powi_mono: "a \<le> b \<Longrightarrow> (2::real) powi a \<le> 2 powi b"
  by (simp add: power_int_increasing)

lemma two_powi_strict_mono: "a < b \<Longrightarrow> (2::real) powi a < 2 powi b"
  by (simp add: power_int_strict_increasing)

lemma two_powi_less_cancel: "(2::real) powi a < 2 powi b \<Longrightarrow> a < b"
  using two_powi_mono [of b a] by (cases "a < b") simp_all

lemma roundEven_abs_le:
  assumes "\<bar>y\<bar> \<le> of_int n"
  shows "\<bar>roundEven y\<bar> \<le> n"
proof -
  have "y \<le> of_int n" using assms by simp
  then have a: "roundEven y \<le> n" by (rule roundEven_le)
  have "of_int (- n) \<le> y" using assms by simp
  then have "- n \<le> roundEven y" by (rule roundEven_ge)
  with a show ?thesis by simp
qed

lemma round64_eval:
  assumes lo: "2 powi k \<le> \<bar>x\<bar>" and hi: "\<bar>x\<bar> < 2 powi (k + 1)"
    and k: "- 1022 \<le> k" "k \<le> 1022"
  shows "round64 x = Num (of_int (roundEven (x / 2 powi (k - 52))) * 2 powi (k - 52))"
proof -
  define u :: real where "u = 2 powi (k - 52)"
  have u: "0 < u" by (simp add: u_def)
  have "0 < \<bar>x\<bar>" using lo two_powi_pos [of k] by linarith
  then have x0: "x \<noteq> 0" by simp
  have e: "expo x = k" using lo hi by (rule expo_unique)
  have "(2::real) powi (k + 1) = 2 powi (53 + (k - 52))"
    by (rule arg_cong [where f = "\<lambda>i. 2 powi i"]) simp
  then have kk: "2 powi (k + 1) = 2 powi 53 * u"
    unfolding u_def by (simp only: two_powi_add)
  with hi have "\<bar>x\<bar> < 2 powi 53 * u" by simp
  then have "\<bar>x / u\<bar> < 2 powi 53" using u by (simp add: field_simps)
  then have "\<bar>x / u\<bar> \<le> of_int (2 ^ 53)" by simp
  then have "\<bar>roundEven (x / u)\<bar> \<le> 2 ^ 53" by (rule roundEven_abs_le)
  then have "\<bar>real_of_int (roundEven (x / u))\<bar> \<le> 2 ^ 53"
    by (metis of_int_abs of_int_le_iff of_int_numeral of_int_power)
  then have "\<bar>real_of_int (roundEven (x / u)) * u\<bar> \<le> 2 ^ 53 * u"
    using u by (simp add: abs_mult)
  also have "2 ^ 53 * u = 2 powi (k + 1)"
    unfolding kk by simp
  also have "\<dots> < 2 powi 1024" using k by (intro two_powi_strict_mono) simp
  finally have "\<not> 2 powi 1024 \<le> \<bar>real_of_int (roundEven (x / u)) * u\<bar>" by simp
  then show ?thesis
    using x0 k unfolding round64_def e Let_def u_def [symmetric]
    by (simp add: max_def u_def)
qed


lemma round64_exact:
  assumes m: "\<bar>m\<bar> < 2 ^ 53" and e: "- 1074 \<le> e" "e \<le> 971"
  shows "round64 (of_int m * 2 powi e) = Num (of_int m * 2 powi e)"
proof (cases "m = 0")
  case True
  then show ?thesis by (simp add: round64_def)
next
  case False
  define x :: real where "x = of_int m * 2 powi e"
  have x0: "x \<noteq> 0" using False by (simp add: x_def)
  have ax: "\<bar>x\<bar> = of_int \<bar>m\<bar> * 2 powi e" by (simp add: x_def abs_mult)
  have "real_of_int \<bar>m\<bar> < 2 ^ 53" using m by (metis of_int_less_iff of_int_numeral of_int_power)
  then have lt: "\<bar>x\<bar> < 2 powi (53 + e)"
    unfolding ax two_powi_add by simp
  have "2 powi expo x \<le> \<bar>x\<bar>" using x0 by (rule expo_bounds)
  with lt have "(2::real) powi expo x < 2 powi (53 + e)" by linarith
  then have E: "expo x < 53 + e" by (rule two_powi_less_cancel)
  define e' where "e' = max (expo x) (- 1022)"
  define d where "d = nat (e - (e' - 52))"
  have "e' - 52 \<le> e" using E e unfolding e'_def by linarith
  then have d: "e = int d + (e' - 52)" by (simp add: d_def)
  have "2 powi e = 2 ^ d * (2::real) powi (e' - 52)"
    by (subst d) (simp only: two_powi_add two_powi_nat, simp)
  then have xu: "x = of_int (m * 2 ^ d) * 2 powi (e' - 52)"
    by (simp add: x_def)
  have "x / 2 powi (e' - 52) = of_int (m * 2 ^ d)"
    by (subst xu) simp
  then have r: "of_int (roundEven (x / 2 powi (e' - 52))) * 2 powi (e' - 52) = x"
    by (simp only: roundEven_int xu [symmetric])
  have "(2::real) powi (53 + e) \<le> 2 powi 1024" using e by (intro two_powi_mono) simp
  with lt have "\<not> 2 powi 1024 \<le> \<bar>x\<bar>" by linarith
  then show ?thesis
    using x0 unfolding x_def [symmetric] round64_def Let_def e'_def [symmetric] r
    by simp
qed

lemma round64_int: "\<bar>n\<bar> < 2 ^ 53 \<Longrightarrow> round64 (of_int n) = Num (of_int n)"
  using round64_exact [of n 0] by simp

text \<open>
  Small integers and their sums are doubles, and a few facts for computing with
  \<open>round64\<close> on numerals.
\<close>

lemma round64_0 [simp]: "round64 0 = Num 0"
  by (simp add: round64_def)

lemma round64_numeral:
  "(numeral w :: int) < 2 ^ 53 \<Longrightarrow> round64 (numeral w) = Num (numeral w)"
  using round64_int [of "numeral w"] by simp

lemma round64_neg_numeral:
  "(numeral w :: int) < 2 ^ 53 \<Longrightarrow> round64 (- numeral w) = Num (- numeral w)"
  using round64_int [of "- numeral w"] by simp

lemma round64_1 [simp]: "round64 1 = Num 1"
  using round64_int [of 1] by simp

lemma round64_neg_1 [simp]: "round64 (- 1) = Num (- 1)"
  using round64_int [of "- 1"] by simp

lemma arith64_Num:
  "add64 (Num a) (Num b) = round64 (a + b)"
  "sub64 (Num a) (Num b) = round64 (a - b)"
  "mul64 (Num a) (Num b) = round64 (a * b)"
  "b \<noteq> 0 \<Longrightarrow> div64 (Num a) (Num b) = round64 (a / b)"
  "0 \<le> a \<Longrightarrow> sqrt64 (Num a) = round64 (sqrt a)"
  by (simp_all add: add64_def sub64_def mul64_def div64_def sqrt64_def minus_jsnum_def)

lemma round64_Ints:
  assumes "x \<in> \<int>" and "\<bar>x\<bar> < 2 ^ 53"
  shows "round64 x = Num x"
proof -
  from assms(1) obtain n where x: "x = of_int n" by (auto elim: Ints_cases)
  have "real_of_int \<bar>n\<bar> < real_of_int (2 ^ 53)" using assms(2) unfolding x by simp
  then have "\<bar>n\<bar> < 2 ^ 53" by (simp only: of_int_less_iff)
  then show ?thesis unfolding x by (rule round64_int)
qed

lemma foldl_add64_exact:
  assumes "\<forall>v \<in> set vs. v \<in> \<int>" and "a \<in> \<int>"
    and "\<bar>a\<bar> + (\<Sum>v\<leftarrow>vs. \<bar>v\<bar>) < 2 ^ 53"
  shows "foldl add64 (Num a) (map Num vs) = Num (a + sum_list vs)"
  using assms
proof (induction vs arbitrary: a)
  case Nil
  then show ?case by simp
next
  case (Cons v vs)
  have nn: "0 \<le> (\<Sum>v\<leftarrow>vs. \<bar>v\<bar>)" by (rule sum_list_nonneg) auto
  have i: "a + v \<in> \<int>" using Cons.prems by simp
  have "\<bar>a + v\<bar> \<le> \<bar>a\<bar> + \<bar>v\<bar>" by simp
  with Cons.prems(3) nn have b: "\<bar>a + v\<bar> < 2 ^ 53" by simp
  have r: "add64 (Num a) (Num v) = Num (a + v)"
    using round64_Ints [OF i b] by (simp add: arith64_Num)
  have "\<bar>a + v\<bar> + (\<Sum>v\<leftarrow>vs. \<bar>v\<bar>) < 2 ^ 53"
    using Cons.prems(3) by simp
  with Cons.IH [of "a + v"] Cons.prems(1) i show ?case
    by (simp add: r add.assoc)
qed

lemma sum64_exact:
  assumes "\<forall>v \<in> set vs. v \<in> \<int>" and "(\<Sum>v\<leftarrow>vs. \<bar>v\<bar>) < 2 ^ 53"
  shows "sum64 (map Num vs) = Num (sum_list vs)"
  using foldl_add64_exact [of vs 0] assms by (simp add: sum64_def)

lemma sum_list_abs_bound:
  assumes "\<forall>v \<in> set vs. \<bar>f v\<bar> \<le> (c::real)"
  shows "(\<Sum>v\<leftarrow>vs. \<bar>f v\<bar>) \<le> real (length vs) * c"
  using assms by (induction vs) (simp_all add: algebra_simps)

text \<open>
  A real rounds to zero only when it is smaller than half the least positive double, a
  non-zero double is at least \<open>2\<^sup>-\<^sup>1\<^sup>0\<^sup>7\<^sup>4\<close> in magnitude, and rounding keeps the sign.
\<close>

lemma round64_eq_0D:
  assumes "round64 x = Num 0"
  shows "\<bar>x\<bar> \<le> 2 powi (- 1075)"
proof (cases "x = 0")
  case True
  then show ?thesis by simp
next
  case False
  define e where "e = max (expo x) (- 1022)"
  define u :: real where "u = 2 powi (e - 52)"
  have u: "0 < u" by (simp add: u_def)
  from assms False have "of_int (roundEven (x / u)) * u = 0"
    unfolding round64_def Let_def e_def [symmetric] u_def [symmetric]
    by (simp split: if_splits)
  with u have "roundEven (x / u) = 0" by simp
  with roundEven_near [of "x / u"] have "\<bar>x / u\<bar> \<le> 1 / 2" by simp
  then have "\<bar>x\<bar> \<le> u / 2" using u by (simp add: field_simps)
  also have "u / 2 = 2 powi (e - 53)"
    unfolding u_def using two_powi_diff [of "e - 52" 1]
    by (simp add: algebra_simps)
  finally have le: "\<bar>x\<bar> \<le> 2 powi (e - 53)" .
  have "2 powi expo x \<le> \<bar>x\<bar>" using False by (rule expo_bounds)
  with le have "(2::real) powi expo x \<le> 2 powi (e - 53)" by linarith
  then have "expo x \<le> e - 53"
    using two_powi_strict_mono [of "e - 53" "expo x"] by (cases "expo x \<le> e - 53") simp_all
  then have "e = - 1022" unfolding e_def by linarith
  with le show ?thesis by simp
qed

lemma round64_granular:
  assumes "round64 x = Num r"
  shows "r = 0 \<or> 2 powi (- 1074) \<le> \<bar>r\<bar>"
proof (cases "x = 0")
  case True
  with assms show ?thesis by simp
next
  case False
  define e where "e = max (expo x) (- 1022)"
  define u :: real where "u = 2 powi (e - 52)"
  define N where "N = roundEven (x / u)"
  have u: "0 < u" by (simp add: u_def)
  from assms False have r: "r = of_int N * u"
    unfolding round64_def Let_def e_def [symmetric] u_def [symmetric] N_def
    by (simp split: if_splits)
  show ?thesis
  proof (cases "N = 0")
    case True
    then show ?thesis by (simp add: r)
  next
    case False
    then have "1 \<le> \<bar>N\<bar>" by simp
    then have "1 \<le> \<bar>real_of_int N\<bar>" by (metis of_int_1_le_iff of_int_abs)
    then have "1 * u \<le> \<bar>real_of_int N\<bar> * u" using u by (intro mult_right_mono) simp_all
    then have a: "u \<le> \<bar>r\<bar>" using u by (simp add: r abs_mult)
    have "2 powi (- 1074) \<le> u"
      unfolding u_def e_def by (intro two_powi_mono) simp
    then have "2 powi (- 1074) \<le> \<bar>r\<bar>" using a by (rule order_trans)
    then show ?thesis ..
  qed
qed

lemma round64_nonneg:
  assumes "0 \<le> x"
  shows "round64 x = PInf \<or> (\<exists>r. round64 x = Num r \<and> 0 \<le> r)"
proof (cases "x = 0")
  case True
  then show ?thesis by simp
next
  case False
  with assms have x: "0 < x" by simp
  define e where "e = max (expo x) (- 1022)"
  define u :: real where "u = 2 powi (e - 52)"
  have u: "0 < u" by (simp add: u_def)
  have "real_of_int 0 \<le> x / u" using x u by simp
  then have "0 \<le> roundEven (x / u)" by (rule roundEven_ge)
  then have "0 \<le> real_of_int (roundEven (x / u)) * u" using u by simp
  then show ?thesis
    using x unfolding round64_def Let_def e_def [symmetric] u_def [symmetric]
    by simp
qed


section \<open>hexToARGB\<close>

lemma mask255: "(255 :: 32 word) = mask 8"
  by (simp add: mask_eq_exp_minus_1)

lemma take_drop_signed_take_bit:
  assumes "k \<le> 24"
  shows "take_bit 8 (drop_bit k (signed_take_bit 31 (v::int))) = take_bit 8 (drop_bit k v)"
proof (rule bit_eqI)
  fix n
  show "bit (take_bit 8 (drop_bit k (signed_take_bit 31 v))) n = bit (take_bit 8 (drop_bit k v)) n"
  proof (cases "n < 8")
    case True
    then have "min 31 (k + n) = k + n" using assms by simp
    then show ?thesis by (simp add: bit_simps)
  next
    case False
    then show ?thesis by (simp add: bit_simps)
  qed
qed

lemma shiftByte_Some:
  assumes "k \<le> 24"
  shows "shiftByte (Some v) k = (v div 2 ^ k) mod 256"
proof -
  have "shiftByte (Some v) k = sint (take_bit 8 (signed_drop_bit k (word_of_int v :: 32 word)))"
    by (simp add: shiftByte_def toInt32_def mask255 take_bit_eq_mask)
  also have "\<dots> = take_bit 8 (drop_bit k (signed_take_bit 31 v))"
    by (simp add: signed_take_bit_eq sint_signed_drop_bit_eq sint_sbintrunc')
  also have "\<dots> = take_bit 8 (drop_bit k v)"
    using assms by (rule take_drop_signed_take_bit)
  also have "\<dots> = (v div 2 ^ k) mod 256"
    by (simp add: take_bit_eq_mod drop_bit_eq_div)
  finally show ?thesis .
qed

lemma shiftByte_None: "shiftByte None k = 0"
  by (simp add: shiftByte_def toInt32_def)

lemma shiftByte_range:
  assumes "k \<le> 24"
  shows "0 \<le> shiftByte v k \<and> shiftByte v k \<le> 255"
proof (cases v)
  case None
  then show ?thesis by (simp add: shiftByte_None)
next
  case (Some i)
  have "0 \<le> (i div 2 ^ k) mod 256" "(i div 2 ^ k) mod 256 < 256" by simp_all
  with Some assms show ?thesis by (simp add: shiftByte_Some)
qed

lemma hexDigit_props:
  "hexDigit c = Some d \<Longrightarrow>
     d < 16 \<and> \<not> isWhiteSpace c \<and> c \<noteq> CHR ''-'' \<and> c \<noteq> CHR ''+'' \<and> c \<noteq> CHR ''x'' \<and> c \<noteq> CHR ''X'' \<and> c \<noteq> CHR ''#''"
  by (auto simp add: hexDigit_def isWhiteSpace_def Let_def split: if_splits)

lemma div_mod_byte:
  fixes hi lo b m :: int
  assumes "0 \<le> lo" "lo < m" "0 \<le> b" "b < 256" "0 \<le> hi"
  shows "((hi * 256 + b) * m + lo) div m mod 256 = b"
proof -
  have "((hi * 256 + b) * m + lo) div m = hi * 256 + b"
    using assms by (simp add: div_pos_pos_trivial)
  then show ?thesis using assms by simp
qed

lemma parseInt16_digits:
  assumes "hexDigit c = Some d" "hexDigit c' = Some d'"
  shows "parseInt16 (c # c' # cs) = Some (int (parseDigits 0 (c # c' # cs)))"
  using hexDigit_props [OF assms(1)] hexDigit_props [OF assms(2)] assms
  by (simp add: parseInt16_def)

lemma hexToARGB_8_digits:
  assumes "map hexDigit ds = map Some [a1, a2, r1, r2, g1, g2, b1, b2]"
  shows "hexToARGB (CHR ''#'' # ds) =
           map int [16 * a1 + a2, 16 * r1 + r2, 16 * g1 + g2, 16 * b1 + b2]"
proof -
  from assms obtain c1 c2 c3 c4 c5 c6 c7 c8 where
    ds: "ds = [c1, c2, c3, c4, c5, c6, c7, c8]" and
    h: "hexDigit c1 = Some a1" "hexDigit c2 = Some a2" "hexDigit c3 = Some r1"
       "hexDigit c4 = Some r2" "hexDigit c5 = Some g1" "hexDigit c6 = Some g2"
       "hexDigit c7 = Some b1" "hexDigit c8 = Some b2"
    by (auto simp add: map_eq_Cons_conv)
  have b: "a1 < 16" "a2 < 16" "r1 < 16" "r2 < 16" "g1 < 16" "g2 < 16" "b1 < 16" "b2 < 16"
    using h hexDigit_props by blast+
  define A R G B where "A = int (16 * a1 + a2)" and "R = int (16 * r1 + r2)"
    and "G = int (16 * g1 + g2)" and "B = int (16 * b1 + b2)"
  have rng: "0 \<le> A" "A < 256" "0 \<le> R" "R < 256" "0 \<le> G" "G < 256" "0 \<le> B" "B < 256"
    using b by (simp_all add: A_def R_def G_def B_def)
  have p: "parseInt16 ds = Some (((A * 256 + R) * 256 + G) * 256 + B)"
    unfolding ds using h by (simp add: parseInt16_digits A_def R_def G_def B_def)
  have s24: "(((A * 256 + R) * 256 + G) * 256 + B) div 2 ^ 24 mod 256 = A"
    using div_mod_byte [of "R * 65536 + G * 256 + B" 16777216 A 0] rng by (simp add: algebra_simps)
  have s16: "(((A * 256 + R) * 256 + G) * 256 + B) div 2 ^ 16 mod 256 = R"
    using div_mod_byte [of "G * 256 + B" 65536 R A] rng by (simp add: algebra_simps)
  have s8: "(((A * 256 + R) * 256 + G) * 256 + B) div 2 ^ 8 mod 256 = G"
    using div_mod_byte [of "B" 256 G "A * 256 + R"] rng by (simp add: algebra_simps)
  have s0: "(((A * 256 + R) * 256 + G) * 256 + B) div 2 ^ 0 mod 256 = B"
  proof -
    have "(((A * 256 + R) * 256 + G) * 256 + B) mod 256 = B mod 256"
      by (simp only: mod_mult_self3)
    then show ?thesis using rng by simp
  qed
  define V where "V = ((A * 256 + R) * 256 + G) * 256 + B"
  have len: "length (CHR ''#'' # ds) = 9" by (simp add: ds)
  have "hexToARGB (CHR ''#'' # ds) =
          [shiftByte (parseInt16 ds) 24, shiftByte (parseInt16 ds) 16,
           shiftByte (parseInt16 ds) 8, shiftByte (parseInt16 ds) 0]"
    using len by (simp add: hexToARGB_def Let_def)
  also have "\<dots> =
          [shiftByte (Some V) 24, shiftByte (Some V) 16, shiftByte (Some V) 8, shiftByte (Some V) 0]"
    by (simp only: p V_def)
  also have "\<dots> = [A, R, G, B]"
    using s24 s16 s8 s0 by (simp only: shiftByte_Some V_def)
  finally show ?thesis by (simp add: A_def R_def G_def B_def)
qed


lemma hexToARGB_6_digits:
  assumes "map hexDigit ds = map Some [r1, r2, g1, g2, b1, b2]"
  shows "hexToARGB (CHR ''#'' # ds) = map int [255, 16 * r1 + r2, 16 * g1 + g2, 16 * b1 + b2]"
proof -
  from assms obtain c3 c4 c5 c6 c7 c8 where
    ds: "ds = [c3, c4, c5, c6, c7, c8]" and
    h: "hexDigit c3 = Some r1" "hexDigit c4 = Some r2" "hexDigit c5 = Some g1"
       "hexDigit c6 = Some g2" "hexDigit c7 = Some b1" "hexDigit c8 = Some b2"
    by (auto simp add: map_eq_Cons_conv)
  have b: "r1 < 16" "r2 < 16" "g1 < 16" "g2 < 16" "b1 < 16" "b2 < 16"
    using h hexDigit_props by blast+
  define R G B where "R = int (16 * r1 + r2)"
    and "G = int (16 * g1 + g2)" and "B = int (16 * b1 + b2)"
  have rng: "0 \<le> R" "R < 256" "0 \<le> G" "G < 256" "0 \<le> B" "B < 256"
    using b by (simp_all add: R_def G_def B_def)
  define V where "V = ((0 * 256 + R) * 256 + G) * 256 + B"
  have p: "parseInt16 ds = Some V"
    unfolding ds V_def using h by (simp add: parseInt16_digits R_def G_def B_def)
  have s16: "V div 2 ^ 16 mod 256 = R"
    unfolding V_def using div_mod_byte [of "G * 256 + B" 65536 R 0] rng by (simp add: algebra_simps)
  have s8: "V div 2 ^ 8 mod 256 = G"
    unfolding V_def using div_mod_byte [of "B" 256 G "0 * 256 + R"] rng by (simp add: algebra_simps)
  have s0: "V div 2 ^ 0 mod 256 = B"
  proof -
    have "V mod 256 = B mod 256"
      unfolding V_def by (simp only: mod_mult_self3)
    then show ?thesis using rng by simp
  qed
  have len: "length (CHR ''#'' # ds) \<noteq> 9" by (simp add: ds)
  have "hexToARGB (CHR ''#'' # ds) =
          [255, shiftByte (parseInt16 ds) 16, shiftByte (parseInt16 ds) 8, shiftByte (parseInt16 ds) 0]"
    using len by (simp add: hexToARGB_def Let_def)
  also have "\<dots> = [255, shiftByte (Some V) 16, shiftByte (Some V) 8, shiftByte (Some V) 0]"
    by (simp only: p)
  also have "\<dots> = [255, R, G, B]"
    using s16 s8 s0 by (simp only: shiftByte_Some)
  finally show ?thesis by (simp add: R_def G_def B_def)
qed

lemma hexToARGB_channels:
  "length (hexToARGB hex) = 4 \<and> (\<forall>c \<in> set (hexToARGB hex). 0 \<le> c \<and> c \<le> 255)"
  using shiftByte_range [of 24] shiftByte_range [of 16] shiftByte_range [of 8] shiftByte_range [of 0]
  by (simp add: hexToARGB_def Let_def)

lemma hexToARGB_other_length:
  "length hex \<noteq> 9 \<Longrightarrow>
     hexToARGB hex = 255 # map (shiftByte (parseInt16 (stripHash hex))) [16, 8, 0]"
  by (simp add: hexToARGB_def Let_def)

text \<open>
  Claim C9. \<open>hexToARGB\<close> is total and is decided by the length of the string alone. A
  string of 9 characters, \<open>#\<close> and eight hexadecimal digits, is decoded as \<open>#AARRGGBB\<close>:
  each channel is the value of its two digits. A string of 7 characters, \<open>#\<close> and six
  digits, is decoded as \<open>#RRGGBB\<close> with alpha 255. Every string whose length is not 9 is
  treated as \<open>#RRGGBB\<close>: alpha is 255 and the other channels are the three low bytes of
  the parsed number. The result always has four channels between 0 and 255. In particular
  \<open>#FF0000\<close> gives \<open>[255, 255, 0, 0]\<close> and \<open>#80112233\<close> gives \<open>[128, 17, 34, 51]\<close>.
\<close>

theorem hexToARGB_total_and_decoded:
  "(map hexDigit ds = map Some [a1, a2, r1, r2, g1, g2, b1, b2] \<longrightarrow>
      hexToARGB (CHR ''#'' # ds) =
        map int [16 * a1 + a2, 16 * r1 + r2, 16 * g1 + g2, 16 * b1 + b2])
   \<and> (map hexDigit es = map Some [x1, x2, y1, y2, z1, z2] \<longrightarrow>
      hexToARGB (CHR ''#'' # es) = map int [255, 16 * x1 + x2, 16 * y1 + y2, 16 * z1 + z2])
   \<and> (length hex \<noteq> 9 \<longrightarrow>
      hexToARGB hex = 255 # map (shiftByte (parseInt16 (stripHash hex))) [16, 8, 0])
   \<and> length (hexToARGB hex) = 4
   \<and> (\<forall>c \<in> set (hexToARGB hex). 0 \<le> c \<and> c \<le> 255)
   \<and> hexToARGB ''#FF0000'' = [255, 255, 0, 0]
   \<and> hexToARGB ''#80112233'' = [128, 17, 34, 51]"
proof -
  have ex1: "hexToARGB ''#FF0000'' = [255, 255, 0, 0]"
    using hexToARGB_6_digits [of "''FF0000''" 15 15 0 0 0 0] by (simp add: hexDigit_def)
  have ex2: "hexToARGB ''#80112233'' = [128, 17, 34, 51]"
    using hexToARGB_8_digits [of "''80112233''" 8 0 1 1 2 2 3 3] by (simp add: hexDigit_def)
  show ?thesis
    using hexToARGB_8_digits hexToARGB_6_digits hexToARGB_other_length hexToARGB_channels ex1 ex2
    by blast
qed

theorem hexToARGB_total_and_decoded_witness:
  "map hexDigit ''80112233'' = map Some [8, 0, 1, 1, 2, 2, 3, 3]
   \<and> hexToARGB ''#80112233'' = [128, 17, 34, 51]
   \<and> map hexDigit ''ff00Aa'' = map Some [15, 15, 0, 0, 10, 10]
   \<and> hexToARGB ''#ff00Aa'' = [255, 255, 0, 170]
   \<and> length ''red'' \<noteq> 9
   \<and> hexToARGB ''red'' = [255, 0, 0, 0]"
  using hexToARGB_total_and_decoded
          [of "''80112233''" 8 0 1 1 2 2 3 3 "''ff00Aa''" 15 15 0 0 10 10 "''red''"]
  by (simp add: hexDigit_def parseInt16_def isWhiteSpace_def shiftByte_None)


section \<open>calculateLinearRegression\<close>

lemma regression_sums_eq:
  "regression_sums ps a b c d =
     (foldl add64 a (map xOf ps), foldl add64 b (map yOf ps),
      foldl add64 c (map (\<lambda>p. mul64 (xOf p) (yOf p)) ps),
      foldl add64 d (map (\<lambda>p. mul64 (xOf p) (xOf p)) ps))"
  by (induction ps arbitrary: a b c d) simp_all

lemma residual_sums_eq:
  "residual_sums ps m sl ic s t =
     (foldl add64 s (map (\<lambda>p. mul64 (sub64 (xOf p) m) (sub64 (xOf p) m)) ps),
      foldl add64 t (map (\<lambda>p. mul64 (sub64 (yOf p) (add64 (mul64 sl (xOf p)) ic))
                                 (sub64 (yOf p) (add64 (mul64 sl (xOf p)) ic))) ps))"
  by (induction ps arbitrary: s t) (simp_all add: Let_def)

lemma denominator_eq:
  "denominator data =
     sub64 (mul64 (Num (real (length data))) (sum64 (map (\<lambda>p. mul64 (xOf p) (xOf p)) data)))
       (mul64 (sum64 (map xOf data)) (sum64 (map xOf data)))"
  by (simp add: denominator_def regression_sums_eq sum64_def)

lemma calculateLinearRegression_unfold:
  "calculateLinearRegression data =
     (if length data < 2 \<or> denominator data = Num 0 then None
      else
        let n = Num (real (length data));
            sumX = sum64 (map xOf data); sumY = sum64 (map yOf data);
            sumXY = sum64 (map (\<lambda>p. mul64 (xOf p) (yOf p)) data);
            sl = div64 (sub64 (mul64 n sumXY) (mul64 sumX sumY)) (denominator data);
            ic = sub64 (div64 sumY n) (mul64 sl (div64 sumX n))
        in Some \<lparr>slope = sl, intercept = ic, npts = length data, meanX = div64 sumX n,
                  Sxx = (if length data < 3 then Num 0
                         else sum64 (map (\<lambda>p. mul64 (sub64 (xOf p) (div64 sumX n))
                                                   (sub64 (xOf p) (div64 sumX n))) data)),
                  residualStdErr =
                    (if length data < 3 then Num 0
                     else sqrt64 (div64
                            (sum64 (map (\<lambda>p. mul64 (sub64 (yOf p) (add64 (mul64 sl (xOf p)) ic))
                                             (sub64 (yOf p) (add64 (mul64 sl (xOf p)) ic))) data))
                            (Num (real (length data - 2)))))\<rparr>)"
  by (simp add: calculateLinearRegression_def regression_sums_eq residual_sums_eq denominator_def
      sum64_def Let_def)

lemmas eval64 = arith64_Num round64_numeral round64_neg_numeral xOf_def yOf_def

text \<open>
  On exact reals the denominator \<open>n \<Sigma>x\<^sup>2 - (\<Sigma>x)\<^sup>2\<close> is \<open>n\<close> times the sum of the squared
  deviations of \<open>x\<close> from its mean, so it is zero exactly when all \<open>x\<close> are the same.
\<close>

lemma sum_sq_dev:
  "(\<Sum>p\<leftarrow>ps. (px p - m)\<^sup>2) =
     (\<Sum>p\<leftarrow>ps. px p * px p) - 2 * m * (\<Sum>p\<leftarrow>ps. px p) + real (length ps) * m\<^sup>2"
  by (induction ps) (simp_all add: power2_eq_square algebra_simps)

lemma ols_denominator_as_Sxx:
  assumes "ps \<noteq> []"
  shows "real (length ps) * (\<Sum>p\<leftarrow>ps. px p * px p) - (\<Sum>p\<leftarrow>ps. px p)\<^sup>2 =
           real (length ps) * (\<Sum>p\<leftarrow>ps. (px p - (\<Sum>p\<leftarrow>ps. px p) / real (length ps))\<^sup>2)"
proof -
  have n: "real (length ps) \<noteq> 0" using assms by simp
  show ?thesis
    unfolding sum_sq_dev using n
    by (simp add: power2_eq_square field_simps)
qed

lemma ols_denominator_zero_iff:
  assumes "ps \<noteq> []"
  shows "real (length ps) * (\<Sum>p\<leftarrow>ps. px p * px p) - (\<Sum>p\<leftarrow>ps. px p)\<^sup>2 = 0
         \<longleftrightarrow> (\<forall>p \<in> set ps. \<forall>q \<in> set ps. px p = px q)"
proof -
  define m where "m = (\<Sum>p\<leftarrow>ps. px p) / real (length ps)"
  have n: "real (length ps) \<noteq> 0" using assms by simp
  have "real (length ps) * (\<Sum>p\<leftarrow>ps. px p * px p) - (\<Sum>p\<leftarrow>ps. px p)\<^sup>2 = 0
        \<longleftrightarrow> (\<Sum>p\<leftarrow>ps. (px p - m)\<^sup>2) = 0"
    using ols_denominator_as_Sxx [OF assms] n by (simp add: m_def)
  also have "\<dots> \<longleftrightarrow> (\<forall>p \<in> set ps. px p = m)"
    by (subst sum_list_nonneg_eq_0_iff) auto
  also have "\<dots> \<longleftrightarrow> (\<forall>p \<in> set ps. \<forall>q \<in> set ps. px p = px q)"
  proof
    assume "\<forall>p \<in> set ps. px p = m"
    then show "\<forall>p \<in> set ps. \<forall>q \<in> set ps. px p = px q" by simp
  next
    assume same: "\<forall>p \<in> set ps. \<forall>q \<in> set ps. px p = px q"
    obtain p0 where p0: "p0 \<in> set ps" using assms by (cases ps) auto
    have all0: "\<forall>p \<in> set ps. px p = px p0"
      using same p0 by blast
    have "map px ps = map (\<lambda>_. px p0) ps"
      unfolding map_eq_conv by (rule all0)
    then have "map px ps = replicate (length ps) (px p0)"
      by (simp only: map_replicate_const)
    then have "(\<Sum>p\<leftarrow>ps. px p) = real (length ps) * px p0"
      by (simp add: sum_list_replicate)
    then have "m = px p0" using n by (simp add: m_def)
    with all0 show "\<forall>p \<in> set ps. px p = m" by blast
  qed
  finally show ?thesis .
qed

text \<open>
  When the \<open>x\<close> are integers of magnitude at most \<open>M\<close> and \<open>(n M)\<^sup>2 < 2\<^sup>5\<^sup>3\<close>, every sum and
  product on the way to the denominator is an integer below \<open>2\<^sup>5\<^sup>3\<close>, so nothing is rounded.
\<close>

lemma denominator_exact:
  assumes ints: "\<forall>p \<in> set data. px p \<in> \<int> \<and> \<bar>px p\<bar> \<le> M"
    and bound: "(real (length data) * M)\<^sup>2 < 2 ^ 53"
  shows "denominator data =
           Num (real (length data) * (\<Sum>p\<leftarrow>data. px p * px p) - (\<Sum>p\<leftarrow>data. px p)\<^sup>2)"
proof (cases "data = []")
  case True
  then show ?thesis by (simp add: denominator_eq sum64_def arith64_Num)
next
  case False
  define n where "n = real (length data)"
  define B where "B = n * M"
  have n1: "1 \<le> n" using False by (cases data) (simp_all add: n_def)
  obtain p0 where "p0 \<in> set data" using False by (cases data) auto
  with ints have M0: "0 \<le> M" by fastforce
  have B0: "0 \<le> B" using n1 M0 by (simp add: B_def)
  have B2: "B\<^sup>2 < 2 ^ 53" using bound by (simp add: B_def n_def)
  have MB: "M \<le> B" using n1 M0 unfolding B_def by (simp add: mult_le_cancel_right1)
  have BB: "B < 2 ^ 53"
  proof (cases "B \<le> 1")
    case True
    then show ?thesis by simp
  next
    case False
    then have "B * 1 \<le> B * B" by (intro mult_left_mono) simp_all
    with B2 show ?thesis by (simp add: power2_eq_square)
  qed
  have M2: "M * M \<le> B\<^sup>2"
    using MB M0 by (simp add: power2_eq_square mult_mono)
  have nM2: "n * (M * M) \<le> B\<^sup>2"
  proof -
    have "n * (M * M) \<le> n * (n * (M * M))"
      using n1 M0 by (intro mult_left_mono) (simp_all add: mult_le_cancel_right1)
    then show ?thesis by (simp add: B_def power2_eq_square algebra_simps)
  qed
  have x: "xOf p = Num (px p)" if "p \<in> set data" for p
  proof -
    from that ints have "px p \<in> \<int>" "\<bar>px p\<bar> \<le> M" by simp_all
    with MB BB show ?thesis unfolding xOf_def by (intro round64_Ints) simp_all
  qed
  have sq: "\<bar>px p * px p\<bar> \<le> M * M" if "p \<in> set data" for p
  proof -
    from that ints have "\<bar>px p\<bar> \<le> M" by simp
    then show ?thesis unfolding abs_mult by (intro mult_mono) simp_all
  qed
  have xx: "mul64 (xOf p) (xOf p) = Num (px p * px p)" if "p \<in> set data" for p
  proof -
    from that ints have "px p * px p \<in> \<int>" by simp
    moreover have "\<bar>px p * px p\<bar> < 2 ^ 53" using sq [OF that] M2 B2 by linarith
    ultimately show ?thesis unfolding x [OF that] arith64_Num by (rule round64_Ints)
  qed
  have mx: "map xOf data = map Num (map px data)"
    using x by simp
  have mxx: "map (\<lambda>p. mul64 (xOf p) (xOf p)) data = map Num (map (\<lambda>p. px p * px p) data)"
    using xx by simp
  have sx_b: "(\<Sum>p\<leftarrow>data. \<bar>px p\<bar>) \<le> B"
    unfolding B_def n_def using ints by (intro sum_list_abs_bound) simp
  have sxx_b: "(\<Sum>p\<leftarrow>data. \<bar>px p * px p\<bar>) \<le> n * (M * M)"
    unfolding n_def using sq by (intro sum_list_abs_bound) simp
  have sumX: "sum64 (map xOf data) = Num (\<Sum>p\<leftarrow>data. px p)"
    unfolding mx using ints sx_b BB
    by (subst sum64_exact) (auto simp add: comp_def)
  have sumX2: "sum64 (map (\<lambda>p. mul64 (xOf p) (xOf p)) data) = Num (\<Sum>p\<leftarrow>data. px p * px p)"
    unfolding mxx using ints sxx_b nM2 B2
    by (subst sum64_exact) (auto simp add: comp_def)
  define S where "S = (\<Sum>p\<leftarrow>data. px p)"
  define Q where "Q = (\<Sum>p\<leftarrow>data. px p * px p)"
  have Si: "S \<in> \<int>" unfolding S_def using ints by (induction data) simp_all
  have Qi: "Q \<in> \<int>" unfolding Q_def using ints by (induction data) simp_all
  have "\<bar>S\<bar> \<le> (\<Sum>p\<leftarrow>data. \<bar>px p\<bar>)"
    unfolding S_def using sum_list_abs [of "map px data"] by (simp add: comp_def)
  with sx_b have Sb: "\<bar>S\<bar> \<le> B" by simp
  have Q0: "0 \<le> Q" unfolding Q_def by (rule sum_list_nonneg) auto
  have "\<bar>Q\<bar> \<le> (\<Sum>p\<leftarrow>data. \<bar>px p * px p\<bar>)"
    unfolding Q_def using sum_list_abs [of "map (\<lambda>p. px p * px p) data"] by (simp add: comp_def)
  with sxx_b have Qb: "Q \<le> n * (M * M)" by simp
  have ni: "n \<in> \<int>" by (simp add: n_def)
  have nQ0: "0 \<le> n * Q" using n1 Q0 by simp
  have nQb: "n * Q \<le> B\<^sup>2"
  proof -
    have "n * Q \<le> n * (n * (M * M))" using Qb n1 by (intro mult_left_mono) simp_all
    then show ?thesis by (simp add: B_def power2_eq_square algebra_simps)
  qed
  have SSb: "S * S \<le> B\<^sup>2"
  proof -
    have "S * S = \<bar>S\<bar> * \<bar>S\<bar>" by simp
    also have "\<dots> \<le> B * B" using Sb by (intro mult_mono) simp_all
    finally show ?thesis by (simp add: power2_eq_square)
  qed
  have SS0: "0 \<le> S * S" by simp
  have m1: "mul64 (Num n) (Num Q) = Num (n * Q)"
    unfolding arith64_Num using ni Qi nQ0 nQb B2 by (intro round64_Ints) simp_all
  have m2: "mul64 (Num S) (Num S) = Num (S * S)"
    unfolding arith64_Num using Si SS0 SSb B2 by (intro round64_Ints) simp_all
  have "\<bar>n * Q - S * S\<bar> \<le> B\<^sup>2" using nQ0 nQb SS0 SSb by linarith
  then have m3: "sub64 (Num (n * Q)) (Num (S * S)) = Num (n * Q - S * S)"
    unfolding arith64_Num using ni Qi Si B2 by (intro round64_Ints) simp_all
  show ?thesis
    unfolding denominator_eq sumX sumX2 n_def [symmetric] S_def [symmetric] Q_def [symmetric]
      m1 m2 m3
    by (simp add: power2_eq_square)
qed





text \<open>Roundings of integers above \<open>2\<^sup>5\<^sup>3\<close> that the next examples meet.\<close>

lemma round64_big:
  "round64 10000000000000000 = Num 10000000000000000"
  "round64 10000000200000001 = Num 10000000200000000"
  "round64 20000000200000000 = Num 20000000200000000"
  "round64 40000000400000000 = Num 40000000400000000"
  "round64 40000000400000001 = Num 40000000400000000"
  "round64 20000000400000000 = Num 20000000400000000"
  "round64 30000000600000000 = Num 30000000600000000"
  "round64 90000001800000000 = Num 90000001800000000"
  "round64 90000001800000009 = Num 90000001800000016"
  "round64 10000000200000000 = Num 10000000200000000"
  by (subst round64_eval [where k = 53], simp_all add: roundEven_def)
     (subst round64_eval [where k = 53], simp_all add: roundEven_def,
      subst round64_eval [where k = 54], simp_all add: roundEven_def,
      subst round64_eval [where k = 55], simp_all add: roundEven_def,
      subst round64_eval [where k = 55], simp_all add: roundEven_def,
      subst round64_eval [where k = 54], simp_all add: roundEven_def,
      subst round64_eval [where k = 54], simp_all add: roundEven_def,
      subst round64_eval [where k = 56], simp_all add: roundEven_def,
      subst round64_eval [where k = 56], simp_all add: roundEven_def,
      subst round64_eval [where k = 53], simp_all add: roundEven_def)









lemma foldl_add64_zeros:
  "\<forall>v \<in> set vs. v = Num 0 \<Longrightarrow> foldl add64 (Num 0) vs = Num 0"
  by (induction vs) (simp_all add: arith64_Num)









section \<open>Function graph and polar graph: samples that throw\<close>

lemma functionPath_throws:
  assumes "i \<in> set cols" and "formulaFunc ((Num (real i) - centerX) / sc) = None"
  shows "functionPath formulaFunc centerX centerY sc cols firstPoint = None"
  using assms
proof (induction cols arbitrary: firstPoint)
  case Nil
  then show ?case by simp
next
  case (Cons j cols)
  show ?case
  proof (cases "formulaFunc ((Num (real j) - centerX) / sc)")
    case None
    then show ?thesis by simp
  next
    case (Some mathY)
    with Cons.prems have "i \<in> set cols" by auto
    then have "functionPath formulaFunc centerX centerY sc cols fp = None" for fp
      using Cons.IH Cons.prems(2) by blast
    with Some show ?thesis by (simp add: Let_def)
  qed
qed

lemma functionPath_returns:
  assumes "\<forall>i \<in> set cols. formulaFunc ((Num (real i) - centerX) / sc) \<noteq> None"
  shows "\<exists>graph. functionPath formulaFunc centerX centerY sc cols firstPoint = Some graph"
  using assms
proof (induction cols arbitrary: firstPoint)
  case Nil
  then show ?case by simp
next
  case (Cons j cols)
  then obtain mathY where m: "formulaFunc ((Num (real j) - centerX) / sc) = Some mathY"
    by auto
  have "\<exists>graph. functionPath formulaFunc centerX centerY sc cols fp = Some graph" for fp
    using Cons by simp
  then obtain gT gF where
    "functionPath formulaFunc centerX centerY sc cols True = Some gT"
    "functionPath formulaFunc centerX centerY sc cols False = Some gF"
    by blast
  with m show ?case by (simp add: Let_def)
qed

text \<open>
  Claim C1, where the code departs from it. In \<open>createFunctionGraph\<close> a sample whose
  evaluation throws is escalated: the call of the formula has no handler of its own, so
  the exception ends the loop and the entry point returns \<open>null\<close>, whatever the other
  samples give. (\<open>createPolarGraph\<close> does catch it, see \<open>createPolarGraph_returns\<close>, and
  a non-finite value restarts the path in both.)
\<close>

theorem createFunctionGraph_sample_throw_escalates:
  assumes "fg_formula config = Some formula" and "formula \<noteq> []"
    and "compile io ''x'' (''return '' @ formula) = Some formulaFunc"
    and "i < fg_width config"
    and "formulaFunc ((Num (real i) - Num (real (fg_width config)) / Num 2) / Num (fg_scale config))
           = None"
  shows "createFunctionGraph io config = None"
proof -
  have "i \<in> set [0 ..< fg_width config]" using assms(4) by simp
  then have "functionPath formulaFunc (Num (real (fg_width config)) / Num 2) cy
               (Num (fg_scale config)) [0 ..< fg_width config] True = None" for cy
    using assms(5) by (rule functionPath_throws)
  then show ?thesis
    using assms(1,2,3) by (simp add: createFunctionGraph_def falsyString_def Let_def)
qed

lemma createPolarGraph_returns:
  assumes "pg_formula config = Some formula" and "formula \<noteq> []"
    and "compile io ''t'' (''with(Math){return '' @ formula @ ''}'') = Some formulaFunc"
    and "createBitmap_ok io (pg_width config) (pg_height config)"
    and "openStream_ok io (pathOrDefault io (pg_path config) ''polarGraph'')"
  shows "\<exists>cmds. createPolarGraph io config =
           Some (pathOrDefault io (pg_path config) ''polarGraph'', cmds)"
  using assms by (simp add: createPolarGraph_def falsyString_def Let_def)


theorem createFunctionGraph_sample_throw_escalates_witness:
  "fg_formula (fg_defaults\<lparr>fg_formula := Some ''f(x)'', fg_width := 4, fg_height := 4, fg_scale := 1\<rparr>)
     = Some ''f(x)''
   \<and> compile \<lparr>now = 0, createBitmap_ok = (\<lambda>w h. True), openStream_ok = (\<lambda>p. True),
        compile = (\<lambda>param body. Some (\<lambda>v. if v < Num 0 then Some v else None)),
        fround = (\<lambda>v. v)\<rparr> ''x'' (''return '' @ ''f(x)'')
     = Some (\<lambda>v. if v < Num 0 then Some v else None)
   \<and> (\<lambda>v. if v < Num 0 then Some v else None) ((Num (real (2::nat)) - Num (real (4::nat)) / Num 2) / Num 1) = None
   \<and> createFunctionGraph
        \<lparr>now = 0, createBitmap_ok = (\<lambda>w h. True), openStream_ok = (\<lambda>p. True),
         compile = (\<lambda>param body. Some (\<lambda>v. if v < Num 0 then Some v else None)),
         fround = (\<lambda>v. v)\<rparr>
        (fg_defaults\<lparr>fg_formula := Some ''f(x)'', fg_width := 4, fg_height := 4, fg_scale := 1\<rparr>)
     = None"
  using createFunctionGraph_sample_throw_escalates
    [of "fg_defaults\<lparr>fg_formula := Some ''f(x)'', fg_width := 4, fg_height := 4, fg_scale := 1\<rparr>"
        "''f(x)''"
        "\<lparr>now = 0, createBitmap_ok = (\<lambda>w h. True), openStream_ok = (\<lambda>p. True),
         compile = (\<lambda>param body. Some (\<lambda>v. if v < Num 0 then Some v else None)),
         fround = (\<lambda>v. v)\<rparr>"
        "\<lambda>v. if v < Num 0 then Some v else None" 2]
  by (simp add: fg_defaults_def)


section \<open>Line chart and scatter plot: too few points\<close>

lemma createLineChart_short_data:
  assumes "case lc_data config of None \<Rightarrow> True | Some data \<Rightarrow> length data < 2"
  shows "createLineChart io config = None"
  using assms by (simp add: createLineChart_def split: option.splits)

lemma createScatterPlot_no_data:
  assumes "sp_data config = None"
  shows "createScatterPlot io config = None"
  using assms by (simp add: createScatterPlot_def)

lemma createScatterPlot_empty_data:
  assumes "sp_data config = Some []"
    and "createBitmap_ok io (sp_width config) (sp_height config)"
    and "openStream_ok io (pathOrDefault io (sp_path config) ''scatterPlot'')"
  shows "createScatterPlot io config =
           Some (pathOrDefault io (sp_path config) ''scatterPlot'',
             [DrawPaint ((new_Paint False)\<lparr>argb := hexToARGB (sp_backgroundColor config)\<rparr>),
              DrawText [Lit scatterEmptyText]
                (Num (real (sp_width config) / 2)) (Num (real (sp_height config) / 2))
                ((new_Paint True)\<lparr>argb := hexToARGB (sp_textColor config),
                   textSize := sp_fontSize config, textAlign := CENTER\<rparr>)])"
  using assms by (simp add: createScatterPlot_def)

lemma regressionCmds_one_point:
  "regressionCmds config [pt] tx ty minX maxX xRange = Some []"
  by (simp add: regressionCmds_def calculateLinearRegression_def)

lemma createScatterPlot_one_point:
  assumes "sp_data config = Some [pt]"
    and "createBitmap_ok io (sp_width config) (sp_height config)"
    and "openStream_ok io (pathOrDefault io (sp_path config) ''scatterPlot'')"
  shows "\<exists>cmds. createScatterPlot io config =
           Some (pathOrDefault io (sp_path config) ''scatterPlot'', cmds)
         \<and> last cmds =
             DrawCircle (Num (sp_padding config)) (Num (real (sp_height config) - sp_padding config))
               (Num (sp_pointSize config))
               ((new_Paint True)\<lparr>argb := hexToARGB (sp_pointColor config)\<rparr>)"
  using assms
  by (simp add: createScatterPlot_def regressionCmds_one_point Let_def scatterFrame_def
      scatterPoints_def toPixelX_def toPixelY_def)


text \<open>
  Claim C2 as stated fails for the scatter plot: with a data array of one point it
  returns the path, and the saved image has ten drawing calls, the last one the point.
\<close>

theorem scatter_short_data_counterexample:
  "fst (the (createScatterPlot idealPlatform
          (sp_defaults\<lparr>sp_path := Some ''plot.png'', sp_data := Some [\<lparr>px = 1, py = 2\<rparr>]\<rparr>)))
     = ''plot.png''
   \<and> length (snd (the (createScatterPlot idealPlatform
          (sp_defaults\<lparr>sp_path := Some ''plot.png'', sp_data := Some [\<lparr>px = 1, py = 2\<rparr>]\<rparr>))))
     = 10
   \<and> last (snd (the (createScatterPlot idealPlatform
          (sp_defaults\<lparr>sp_path := Some ''plot.png'', sp_data := Some [\<lparr>px = 1, py = 2\<rparr>]\<rparr>))))
     = DrawCircle (Num 100) (Num 700) (Num 10) ((new_Paint True)\<lparr>argb := [255, 255, 99, 71]\<rparr>)
   \<and> createScatterPlot idealPlatform
          (sp_defaults\<lparr>sp_path := Some ''plot.png'', sp_data := Some [\<lparr>px = 1, py = 2\<rparr>]\<rparr>)
     \<noteq> None"
proof -
  have c: "hexToARGB ''#FF6347'' = [255, 255, 99, 71]"
    by (simp add: hexToARGB_def parseInt16_def shiftByte_def toInt32_def hexDigit_def isWhiteSpace_def)
  show ?thesis
    by (simp add: createScatterPlot_def regressionCmds_one_point Let_def sp_defaults_def c
        scatterFrame_def scatterPoints_def toPixelX_def toPixelY_def)
qed

text \<open>
  Claim C2, amended. A line chart whose data is missing or has fewer than two points
  returns \<open>null\<close> and draws nothing. A scatter plot returns \<open>null\<close> for its data only when
  the data is missing: with an empty array it draws the placeholder text, with one point
  it draws the frame and that point, and in both cases it returns the path, provided the
  bitmap and the file can be created.
\<close>

theorem short_data_line_fails_scatter_renders:
  "((case lc_data lc of None \<Rightarrow> True | Some data \<Rightarrow> length data < 2)
      \<longrightarrow> createLineChart io lc = None)
   \<and> (sp_data sp = None \<longrightarrow> createScatterPlot io sp = None)
   \<and> (sp_data sp = Some []
        \<and> createBitmap_ok io (sp_width sp) (sp_height sp)
        \<and> openStream_ok io (pathOrDefault io (sp_path sp) ''scatterPlot'')
      \<longrightarrow> createScatterPlot io sp =
           Some (pathOrDefault io (sp_path sp) ''scatterPlot'',
             [DrawPaint ((new_Paint False)\<lparr>argb := hexToARGB (sp_backgroundColor sp)\<rparr>),
              DrawText [Lit scatterEmptyText]
                (Num (real (sp_width sp) / 2)) (Num (real (sp_height sp) / 2))
                ((new_Paint True)\<lparr>argb := hexToARGB (sp_textColor sp),
                   textSize := sp_fontSize sp, textAlign := CENTER\<rparr>)]))
   \<and> (sp_data sp = Some [pt]
        \<and> createBitmap_ok io (sp_width sp) (sp_height sp)
        \<and> openStream_ok io (pathOrDefault io (sp_path sp) ''scatterPlot'')
      \<longrightarrow> (\<exists>cmds. createScatterPlot io sp =
                    Some (pathOrDefault io (sp_path sp) ''scatterPlot'', cmds)
                \<and> last cmds =
                    DrawCircle (Num (sp_padding sp)) (Num (real (sp_height sp) - sp_padding sp))
                      (Num (sp_pointSize sp))
                      ((new_Paint True)\<lparr>argb := hexToARGB (sp_pointColor sp)\<rparr>)))"
  using createLineChart_short_data [of lc io] createScatterPlot_no_data [of sp io]
    createScatterPlot_empty_data [of sp io] createScatterPlot_one_point [of sp pt io]
  by blast

theorem short_data_line_fails_scatter_renders_witness:
  "createLineChart idealPlatform (lc_defaults\<lparr>lc_data := Some [\<lparr>px = 1, py = 2\<rparr>]\<rparr>) = None
   \<and> createLineChart idealPlatform lc_defaults = None
   \<and> createScatterPlot idealPlatform sp_defaults = None
   \<and> createScatterPlot idealPlatform (sp_defaults\<lparr>sp_path := Some ''plot.png'', sp_data := Some []\<rparr>)
       = Some (''plot.png'',
           [DrawPaint ((new_Paint False)\<lparr>argb := hexToARGB ''#FFFFFF''\<rparr>),
            DrawText [Lit scatterEmptyText] (Num 500) (Num 400)
              ((new_Paint True)\<lparr>argb := hexToARGB ''#333333'', textSize := 40,
                 textAlign := CENTER\<rparr>)])
   \<and> last (snd (the (createScatterPlot idealPlatform
          (sp_defaults\<lparr>sp_path := Some ''plot.png'', sp_data := Some [\<lparr>px = 1, py = 2\<rparr>]\<rparr>))))
       = DrawCircle (Num 100) (Num 700) (Num 10) ((new_Paint True)\<lparr>argb := hexToARGB ''#FF6347''\<rparr>)"
proof -
  let ?one = "sp_defaults\<lparr>sp_path := Some ''plot.png'', sp_data := Some [\<lparr>px = 1, py = 2\<rparr>]\<rparr>"
  let ?none = "sp_defaults\<lparr>sp_path := Some ''plot.png'', sp_data := Some []\<rparr>"
  from short_data_line_fails_scatter_renders
         [of "lc_defaults\<lparr>lc_data := Some [\<lparr>px = 1, py = 2\<rparr>]\<rparr>" idealPlatform ?one "\<lparr>px = 1, py = 2\<rparr>"]
  have a: "createLineChart idealPlatform (lc_defaults\<lparr>lc_data := Some [\<lparr>px = 1, py = 2\<rparr>]\<rparr>) = None"
    and d: "last (snd (the (createScatterPlot idealPlatform ?one)))
       = DrawCircle (Num 100) (Num 700) (Num 10) ((new_Paint True)\<lparr>argb := hexToARGB ''#FF6347''\<rparr>)"
    by (auto simp add: sp_defaults_def)
  from short_data_line_fails_scatter_renders
         [of lc_defaults idealPlatform ?none "\<lparr>px = 1, py = 2\<rparr>"]
  have b: "createLineChart idealPlatform lc_defaults = None"
    and c: "createScatterPlot idealPlatform ?none
       = Some (''plot.png'',
           [DrawPaint ((new_Paint False)\<lparr>argb := hexToARGB ''#FFFFFF''\<rparr>),
            DrawText [Lit scatterEmptyText] (Num 500) (Num 400)
              ((new_Paint True)\<lparr>argb := hexToARGB ''#333333'', textSize := 40,
                 textAlign := CENTER\<rparr>)])"
    by (simp_all add: sp_defaults_def lc_defaults_def)
  from short_data_line_fails_scatter_renders
         [of lc_defaults idealPlatform sp_defaults "\<lparr>px = 1, py = 2\<rparr>"]
  have e: "createScatterPlot idealPlatform sp_defaults = None"
    by (simp add: sp_defaults_def)
  from a b c d e show ?thesis by simp
qed


section \<open>Scatter plot: the confidence band\<close>

lemma regression_of_two_points:
  "calculateLinearRegression [p, q] = None
   \<or> (\<exists>r. calculateLinearRegression [p, q] = Some r \<and> npts r = 2 \<and> Sxx r = Num 0)"
  by (simp add: calculateLinearRegression_unfold Let_def)

lemma two_points_none_iff:
  assumes "px p \<in> \<int>" "px q \<in> \<int>" "\<bar>px p\<bar> \<le> M" "\<bar>px q\<bar> \<le> M" "(2 * M)\<^sup>2 < 2 ^ 53"
  shows "calculateLinearRegression [p, q] = None \<longleftrightarrow> px p = px q"
proof -
  have "denominator [p, q] =
          Num (real (length [p, q]) * (\<Sum>t\<leftarrow>[p, q]. px t * px t) - (\<Sum>t\<leftarrow>[p, q]. px t)\<^sup>2)"
    using assms by (intro denominator_exact [where M = M]) simp_all
  moreover have "real (length [p, q]) * (\<Sum>t\<leftarrow>[p, q]. px t * px t) - (\<Sum>t\<leftarrow>[p, q]. px t)\<^sup>2 = 0
                 \<longleftrightarrow> (\<forall>s \<in> set [p, q]. \<forall>t \<in> set [p, q]. px s = px t)"
    by (rule ols_denominator_zero_iff) simp
  ultimately have "denominator [p, q] = Num 0 \<longleftrightarrow> px p = px q"
    by auto
  then show ?thesis by (simp add: calculateLinearRegression_unfold Let_def)
qed

lemma regressionCmds_two_points:
  "regressionCmds config [p, q] tx ty minX maxX xRange =
     Some (if sp_showConfidenceInterval config \<and> calculateLinearRegression [p, q] \<noteq> None
           then [DrawLine (tx minX)
                   (ty (slope (the (calculateLinearRegression [p, q])) * minX
                        + intercept (the (calculateLinearRegression [p, q]))))
                   (tx maxX)
                   (ty (slope (the (calculateLinearRegression [p, q])) * maxX
                        + intercept (the (calculateLinearRegression [p, q]))))
                   ((new_Paint True)\<lparr>argb := hexToARGB (sp_regressionLineColor config),
                      strokeWidth := 4\<rparr>)]
           else [])"
  using regression_of_two_points [of p q]
  by (auto simp add: regressionCmds_def Let_def)

lemma regressionCmds_band_only_if:
  assumes "regressionCmds config data tx ty minX maxX xRange = Some reg"
    and "\<exists>c \<in> set reg. drawsPath c \<or> clips c"
  shows "sp_showConfidenceInterval config
         \<and> (\<exists>r. calculateLinearRegression data = Some r \<and> npts r > 2 \<and> Sxx r > Num 0)"
  using assms
  by (auto simp add: regressionCmds_def Let_def split: if_splits option.splits)

lemma scatterFrame_no_path:
  "c \<in> set (scatterFrame config axisPaint textPaint) \<Longrightarrow> \<not> drawsPath c \<and> \<not> clips c"
  by (auto simp add: scatterFrame_def Let_def)

lemma scatterPoints_no_path:
  "c \<in> set (scatterPoints config tx ty pointPaint data) \<Longrightarrow> \<not> drawsPath c \<and> \<not> clips c"
  by (auto simp add: scatterPoints_def)

lemma scatter_two_points:
  assumes "sp_data config = Some [p, q]"
    and "createBitmap_ok io (sp_width config) (sp_height config)"
    and "openStream_ok io (pathOrDefault io (sp_path config) ''scatterPlot'')"
  shows "\<exists>cmds. createScatterPlot io config =
                  Some (pathOrDefault io (sp_path config) ''scatterPlot'', cmds)
          \<and> (\<forall>c \<in> set cmds. \<not> drawsPath c \<and> \<not> clips c)
          \<and> ((\<exists>x1 y1 x2 y2. DrawLine x1 y1 x2 y2
                  ((new_Paint True)\<lparr>argb := hexToARGB (sp_regressionLineColor config),
                     strokeWidth := 4\<rparr>) \<in> set cmds)
               \<longleftrightarrow> sp_showConfidenceInterval config
                   \<and> calculateLinearRegression [p, q] \<noteq> None)"
  using assms
  by (auto simp add: createScatterPlot_def regressionCmds_two_points Let_def new_Paint_def
      scatterFrame_def scatterPoints_def split: prod.splits)

lemma scatter_band_only_if:
  assumes "sp_data config = Some data"
    and "createScatterPlot io config = Some (path, cmds)"
    and "c \<in> set cmds" and "drawsPath c \<or> clips c"
  shows "sp_showConfidenceInterval config
         \<and> (\<exists>r. calculateLinearRegression data = Some r \<and> npts r > 2 \<and> Sxx r > Num 0)"
proof (cases "length data = 0")
  case True
  with assms show ?thesis
    by (auto simp add: createScatterPlot_def Let_def split: if_splits)
next
  case False
  obtain minX maxX minY maxY where mm: "minMaxXY data PInf NInf PInf NInf = (minX, maxX, minY, maxY)"
    by (metis prod_cases4)
  define xRange where "xRange = js_or (maxX - minX) (Num 1)"
  define tx where "tx = toPixelX config minX xRange"
  define ty where "ty = toPixelY config minY (js_or (maxY - minY) (Num 1))"
  from assms(1,2) False mm obtain reg frame pts pn where
    reg: "regressionCmds config data tx ty minX maxX xRange = Some reg"
    and cmds: "cmds = DrawPaint pn # scatterFrame config frame pts @ reg
                 @ scatterPoints config tx ty ((new_Paint True)\<lparr>argb := hexToARGB (sp_pointColor config)\<rparr>) data"
    by (auto simp add: createScatterPlot_def Let_def tx_def ty_def xRange_def
        split: if_splits option.splits)
  from assms(3,4) cmds have "c \<in> set reg"
    using scatterFrame_no_path scatterPoints_no_path by auto
  with reg assms(4) show ?thesis
    using regressionCmds_band_only_if by blast
qed


lemma scatter_example_two:
  "createScatterPlot idealPlatform
     (sp_defaults\<lparr>sp_path := Some ''plot.png'',
        sp_data := Some [\<lparr>px = 1, py = 2\<rparr>, \<lparr>px = 3, py = 4\<rparr>],
        sp_showConfidenceInterval := True\<rparr>) =
   Some (''plot.png'',
     DrawPaint ((new_Paint False)\<lparr>argb := hexToARGB ''#FFFFFF''\<rparr>)
     # scatterFrame (sp_defaults\<lparr>sp_path := Some ''plot.png'',
          sp_data := Some [\<lparr>px = 1, py = 2\<rparr>, \<lparr>px = 3, py = 4\<rparr>],
          sp_showConfidenceInterval := True\<rparr>)
         ((new_Paint False)\<lparr>argb := hexToARGB ''#000000'', strokeWidth := 5\<rparr>)
         ((new_Paint True)\<lparr>argb := hexToARGB ''#333333'', textSize := 40, textAlign := CENTER\<rparr>)
     @ [DrawLine (Num 100) (Num 700) (Num 900) (Num 100)
          ((new_Paint True)\<lparr>argb := hexToARGB ''#0000FF'', strokeWidth := 4\<rparr>),
        DrawCircle (Num 100) (Num 700) (Num 10) ((new_Paint True)\<lparr>argb := hexToARGB ''#FF6347''\<rparr>),
        DrawCircle (Num 900) (Num 100) (Num 10) ((new_Paint True)\<lparr>argb := hexToARGB ''#FF6347''\<rparr>)])"
  by (simp add: createScatterPlot_def regressionCmds_def calculateLinearRegression_def Let_def
      sp_defaults_def scatterPoints_def toPixelX_def toPixelY_def eval64)


text \<open>
  Claim C6. A scatter plot of exactly two points never draws the confidence band, also
  with \<open>showConfidenceInterval\<close> set: the saved image has no path and no clip. The trend
  line is still drawn, exactly when \<open>showConfidenceInterval\<close> is set and the two points
  have a regression; two points with integer \<open>x\<close> of magnitude at most \<open>M\<close>,
  \<open>(2 M)\<^sup>2 < 2\<^sup>5\<^sup>3\<close>, have one exactly when they differ in \<open>x\<close>, and for \<open>(1,2), (3,4)\<close> the
  line is drawn from corner to corner of the plot area. For data of any size, a path or a clip in the image means that
  \<open>showConfidenceInterval\<close> is set and the regression has \<open>n > 2\<close> and \<open>Sxx > 0\<close>.
\<close>

theorem scatter_two_points_no_band:
  "(sp_data config = Some [p, q]
      \<and> createBitmap_ok io (sp_width config) (sp_height config)
      \<and> openStream_ok io (pathOrDefault io (sp_path config) ''scatterPlot'')
    \<longrightarrow> (\<exists>cmds. createScatterPlot io config =
                  Some (pathOrDefault io (sp_path config) ''scatterPlot'', cmds)
          \<and> (\<forall>c \<in> set cmds. \<not> drawsPath c \<and> \<not> clips c)
          \<and> ((\<exists>x1 y1 x2 y2. DrawLine x1 y1 x2 y2
                  ((new_Paint True)\<lparr>argb := hexToARGB (sp_regressionLineColor config),
                     strokeWidth := 4\<rparr>) \<in> set cmds)
               \<longleftrightarrow> sp_showConfidenceInterval config
                   \<and> calculateLinearRegression [p, q] \<noteq> None)))
   \<and> (sp_data config = Some data
      \<and> createScatterPlot io config = Some (path, cmds)
      \<and> c \<in> set cmds \<and> (drawsPath c \<or> clips c)
    \<longrightarrow> sp_showConfidenceInterval config
        \<and> (\<exists>r. calculateLinearRegression data = Some r \<and> npts r > 2 \<and> Sxx r > Num 0))
   \<and> (px p \<in> \<int> \<and> px q \<in> \<int> \<and> \<bar>px p\<bar> \<le> M \<and> \<bar>px q\<bar> \<le> M \<and> (2 * M)\<^sup>2 < 2 ^ 53
      \<longrightarrow> (calculateLinearRegression [p, q] = None \<longleftrightarrow> px p = px q))
   \<and> DrawLine (Num 100) (Num 700) (Num 900) (Num 100)
         ((new_Paint True)\<lparr>argb := hexToARGB ''#0000FF'', strokeWidth := 4\<rparr>)
       \<in> set (snd (the (createScatterPlot idealPlatform
        (sp_defaults\<lparr>sp_path := Some ''plot.png'',
           sp_data := Some [\<lparr>px = 1, py = 2\<rparr>, \<lparr>px = 3, py = 4\<rparr>],
           sp_showConfidenceInterval := True\<rparr>))))"
proof -
  have "DrawLine (Num 100) (Num 700) (Num 900) (Num 100)
         ((new_Paint True)\<lparr>argb := hexToARGB ''#0000FF'', strokeWidth := 4\<rparr>)
       \<in> set (snd (the (createScatterPlot idealPlatform
        (sp_defaults\<lparr>sp_path := Some ''plot.png'',
           sp_data := Some [\<lparr>px = 1, py = 2\<rparr>, \<lparr>px = 3, py = 4\<rparr>],
           sp_showConfidenceInterval := True\<rparr>))))"
    by (simp add: scatter_example_two)
  then show ?thesis
    using scatter_two_points [of config p q io]
      scatter_band_only_if [of config data io path cmds c]
      two_points_none_iff [of p q M]
    by blast
qed

lemma regression_example_three:
  "\<exists>r. calculateLinearRegression
          [\<lparr>px = 0, py = 0\<rparr>, \<lparr>px = 1, py = 1\<rparr>, \<lparr>px = 2, py = 0\<rparr>] = Some r
       \<and> npts r = 3 \<and> Sxx r = Num 2"
  by (simp add: calculateLinearRegression_unfold denominator_eq sum64_def eval64 Let_def)

lemma bandPath_Some:
  "pts \<noteq> [] \<Longrightarrow> \<exists>ops. bandPath pts = Some ops"
  by (cases pts) (simp_all add: bandPath_def)

lemma regressionCmds_band_if:
  assumes "sp_showConfidenceInterval config"
    and "calculateLinearRegression data = Some r" and "npts r > 2" and "Sxx r > Num 0"
    and "0 \<le> sp_confidenceIntervalResolution config"
  shows "\<exists>reg. regressionCmds config data tx ty minX maxX xRange = Some reg
           \<and> list_ex drawsPath reg \<and> list_ex clips reg"
proof -
  define k where "k = nat (\<lfloor>sp_confidenceIntervalResolution config\<rfloor> + 1)"
  have "0 \<le> \<lfloor>sp_confidenceIntervalResolution config\<rfloor>"
    using assms(5) by simp
  then have "0 < k"
    unfolding k_def by linarith
  then have "map (bandPoint r tx ty minX xRange (sp_confidenceIntervalResolution config)) [0 ..< k]
               \<noteq> []"
    by simp
  then obtain ops where
    "bandPath (map (bandPoint r tx ty minX xRange (sp_confidenceIntervalResolution config))
               [0 ..< k]) = Some ops"
    using bandPath_Some by blast
  with assms(1-4) show ?thesis
    by (simp add: regressionCmds_def Let_def k_def)
qed

lemma scatter_example_three:
  "\<exists>cmds. createScatterPlot idealPlatform
     (sp_defaults\<lparr>sp_path := Some ''plot.png'',
        sp_data := Some [\<lparr>px = 0, py = 0\<rparr>, \<lparr>px = 1, py = 1\<rparr>, \<lparr>px = 2, py = 0\<rparr>],
        sp_showConfidenceInterval := True\<rparr>) =
     Some (''plot.png'', cmds) \<and> list_ex drawsPath cmds"
proof -
  let ?data = "[\<lparr>px = 0, py = 0\<rparr>, \<lparr>px = 1, py = 1\<rparr>, \<lparr>px = 2, py = 0::real\<rparr>]"
  let ?config = "sp_defaults\<lparr>sp_path := Some ''plot.png'', sp_data := Some ?data,
        sp_showConfidenceInterval := True\<rparr>"
  obtain r where r: "calculateLinearRegression ?data = Some r" "npts r = 3" "Sxx r = Num 2"
    using regression_example_three by blast
  have "\<exists>reg. regressionCmds ?config ?data tx ty minX maxX xRange = Some reg
           \<and> list_ex drawsPath reg \<and> list_ex clips reg" for tx ty minX maxX xRange
    by (rule regressionCmds_band_if [OF _ r(1)])
       (simp_all add: sp_defaults_def r)
  then obtain reg where
    "regressionCmds ?config ?data (toPixelX ?config (Num 0) (Num 2)) (toPixelY ?config (Num 0) (Num 1))
       (Num 0) (Num 2) (Num 2) = Some reg" "list_ex drawsPath reg"
    by blast
  then show ?thesis
    by (simp add: createScatterPlot_def Let_def sp_defaults_def)
qed

theorem scatter_two_points_no_band_witness:
  "list_all (\<lambda>c. \<not> drawsPath c \<and> \<not> clips c)
     (snd (the (createScatterPlot idealPlatform
        (sp_defaults\<lparr>sp_path := Some ''plot.png'',
           sp_data := Some [\<lparr>px = 1, py = 2\<rparr>, \<lparr>px = 3, py = 4\<rparr>],
           sp_showConfidenceInterval := True\<rparr>))))
   \<and> DrawLine (Num 100) (Num 700) (Num 900) (Num 100)
         ((new_Paint True)\<lparr>argb := hexToARGB ''#0000FF'', strokeWidth := 4\<rparr>)
       \<in> set (snd (the (createScatterPlot idealPlatform
        (sp_defaults\<lparr>sp_path := Some ''plot.png'',
           sp_data := Some [\<lparr>px = 1, py = 2\<rparr>, \<lparr>px = 3, py = 4\<rparr>],
           sp_showConfidenceInterval := True\<rparr>))))
   \<and> list_ex drawsPath
     (snd (the (createScatterPlot idealPlatform
        (sp_defaults\<lparr>sp_path := Some ''plot.png'',
           sp_data := Some [\<lparr>px = 0, py = 0\<rparr>, \<lparr>px = 1, py = 1\<rparr>, \<lparr>px = 2, py = 0\<rparr>],
           sp_showConfidenceInterval := True\<rparr>))))
   \<and> 2 < npts (the (calculateLinearRegression
           [\<lparr>px = 0, py = 0\<rparr>, \<lparr>px = 1, py = 1\<rparr>, \<lparr>px = 2, py = 0\<rparr>]))
   \<and> calculateLinearRegression [\<lparr>px = 1, py = 2\<rparr>, \<lparr>px = 3, py = 4\<rparr>] \<noteq> None"
proof -
  let ?two = "sp_defaults\<lparr>sp_path := Some ''plot.png'',
           sp_data := Some [\<lparr>px = 1, py = 2\<rparr>, \<lparr>px = 3, py = 4\<rparr>],
           sp_showConfidenceInterval := True\<rparr>"
  let ?data = "[\<lparr>px = 0, py = 0\<rparr>, \<lparr>px = 1, py = 1\<rparr>, \<lparr>px = 2, py = 0::real\<rparr>]"
  let ?three = "sp_defaults\<lparr>sp_path := Some ''plot.png'', sp_data := Some ?data,
        sp_showConfidenceInterval := True\<rparr>"
  from scatter_two_points_no_band
         [where config = ?two and p = "\<lparr>px = 1, py = 2\<rparr>"
            and q = "\<lparr>px = 3, py = 4\<rparr>" and io = idealPlatform, THEN conjunct1]
  obtain cmds where two: "createScatterPlot idealPlatform ?two = Some (''plot.png'', cmds)"
    and none: "\<forall>c \<in> set cmds. \<not> drawsPath c \<and> \<not> clips c"
    by (auto simp add: sp_defaults_def)
  have a: "list_all (\<lambda>c. \<not> drawsPath c \<and> \<not> clips c) (snd (the (createScatterPlot idealPlatform ?two)))"
    using two none by (simp add: list_all_iff)
  have b: "DrawLine (Num 100) (Num 700) (Num 900) (Num 100)
         ((new_Paint True)\<lparr>argb := hexToARGB ''#0000FF'', strokeWidth := 4\<rparr>)
       \<in> set (snd (the (createScatterPlot idealPlatform ?two)))"
    by (simp add: scatter_example_two)
  from scatter_example_three obtain cmds3 where
    three: "createScatterPlot idealPlatform ?three = Some (''plot.png'', cmds3)"
    and ex: "list_ex drawsPath cmds3"
    by blast
  from ex obtain c where c: "c \<in> set cmds3" "drawsPath c"
    by (auto simp add: list_ex_iff)
  from scatter_two_points_no_band
         [where config = ?three and io = idealPlatform and data = ?data
            and path = "''plot.png''" and cmds = cmds3 and c = c, THEN conjunct2] three c
  have "\<exists>r. calculateLinearRegression ?data = Some r \<and> npts r > 2 \<and> Sxx r > Num 0"
    by (simp add: sp_defaults_def)
  then have d: "2 < npts (the (calculateLinearRegression ?data))"
    by auto
  have i: "px \<lparr>px = 1, py = 2\<rparr> \<in> \<int> \<and> px \<lparr>px = 3, py = 4\<rparr> \<in> \<int>
           \<and> \<bar>px \<lparr>px = 1, py = 2\<rparr>\<bar> \<le> 3 \<and> \<bar>px \<lparr>px = 3, py = 4\<rparr>\<bar> \<le> 3
           \<and> (2 * 3)\<^sup>2 < (2::real) ^ 53"
    by simp
  from scatter_two_points_no_band
         [where p = "\<lparr>px = 1, py = 2\<rparr>" and q = "\<lparr>px = 3, py = 4\<rparr>" and M = 3,
          THEN conjunct2, THEN conjunct2, THEN conjunct1, THEN mp, OF i]
  have e: "calculateLinearRegression [\<lparr>px = 1, py = 2\<rparr>, \<lparr>px = 3, py = 4\<rparr>] \<noteq> None"
    by simp
  from a b three ex d e show ?thesis by simp
qed


section \<open>Pie chart: a total of zero\<close>

lemma totalValue_sum: "totalValue data = sum64 (map valueOf data)"
proof -
  have "fold (\<lambda>cur acc. add64 acc (valueOf cur)) data a = foldl add64 a (map valueOf data)" for a
    by (induction data arbitrary: a) simp_all
  then show ?thesis by (simp add: totalValue_def sum64_def)
qed

lemma totalValue_all_zero:
  assumes "\<forall>it \<in> set data. item_value it = 0"
  shows "totalValue data = Num 0"
proof -
  have "\<forall>v \<in> set (map valueOf data). v = Num 0"
    using assms by (simp add: valueOf_def)
  then show ?thesis
    unfolding totalValue_sum sum64_def by (rule foldl_add64_zeros)
qed

text \<open>
  A running sum of non-negative doubles is zero only when every term is zero: a sum of
  two non-negative doubles that are not both zero is at least the least positive double
  and does not round to zero, and an overflow gives \<open>Infinity\<close>.
\<close>

lemma foldl_add64_nonneg_zero:
  assumes "\<forall>v \<in> set vs. 0 \<le> v \<and> round64 v = Num v"
    and "acc = PInf \<or> (\<exists>a. acc = Num a \<and> (a = 0 \<or> 2 powi (- 1074) \<le> a))"
  shows "foldl add64 acc (map Num vs) = Num 0 \<longleftrightarrow> acc = Num 0 \<and> (\<forall>v \<in> set vs. v = 0)"
  using assms
proof (induction vs arbitrary: acc)
  case Nil
  then show ?case by simp
next
  case (Cons v vs)
  have v: "0 \<le> v" "round64 v = Num v" and vs: "\<forall>v \<in> set vs. 0 \<le> v \<and> round64 v = Num v"
    using Cons.prems(1) by simp_all
  have tiny: "(2::real) powi (- 1075) < 2 powi (- 1074)"
    by (rule two_powi_strict_mono) simp
  have least: "0 < (2::real) powi (- 1074)" by (rule two_powi_pos)
  from Cons.prems(2) show ?case
  proof
    assume inf: "acc = PInf"
    have "add64 PInf (Num v) = PInf" by (simp add: add64_def)
    with Cons.IH [of PInf] vs inf show ?thesis by simp
  next
    assume "\<exists>a. acc = Num a \<and> (a = 0 \<or> 2 powi (- 1074) \<le> a)"
    then obtain a where acc: "acc = Num a" and a: "a = 0 \<or> 2 powi (- 1074) \<le> a" by blast
    have a0: "0 \<le> a" using a least by auto
    have step: "add64 acc (Num v) = round64 (a + v)" by (simp add: acc arith64_Num)
    have inv: "round64 (a + v) = PInf
               \<or> (\<exists>r. round64 (a + v) = Num r \<and> (r = 0 \<or> 2 powi (- 1074) \<le> r))"
    proof -
      from round64_nonneg [of "a + v"] a0 v(1)
      consider "round64 (a + v) = PInf" | r where "round64 (a + v) = Num r" "0 \<le> r"
        by auto
      then show ?thesis
      proof cases
        case 1
        then show ?thesis by simp
      next
        case 2
        with round64_granular [of "a + v" r] show ?thesis by auto
      qed
    qed
    have zero: "round64 (a + v) = Num 0 \<longleftrightarrow> a = 0 \<and> v = 0"
    proof
      assume "round64 (a + v) = Num 0"
      then have "\<bar>a + v\<bar> \<le> 2 powi (- 1075)" by (rule round64_eq_0D)
      with a0 v(1) tiny have small: "a < 2 powi (- 1074)" "v < 2 powi (- 1074)" by linarith+
      from small(1) a have "a = 0" by linarith
      moreover from round64_granular [OF v(2)] small(2) v(1) have "v = 0" by linarith
      ultimately show "a = 0 \<and> v = 0" by simp
    next
      assume "a = 0 \<and> v = 0"
      then show "round64 (a + v) = Num 0" by simp
    qed
    from Cons.IH [of "round64 (a + v)", OF vs inv] zero show ?thesis
      by (simp add: acc arith64_Num)
  qed
qed

lemma totalValue_nonneg_zero_iff:
  assumes "\<forall>it \<in> set data. 0 \<le> item_value it \<and> valueOf it = Num (item_value it)"
  shows "totalValue data = Num 0 \<longleftrightarrow> (\<Sum>it\<leftarrow>data. item_value it) = 0"
proof -
  have m: "map valueOf data = map Num (map item_value data)"
    using assms by simp
  have "totalValue data = Num 0 \<longleftrightarrow> (\<forall>v \<in> set (map item_value data). v = 0)"
    unfolding totalValue_sum sum64_def m
    using foldl_add64_nonneg_zero [of "map item_value data" "Num 0"] assms
    by (simp add: valueOf_def)
  also have "\<dots> \<longleftrightarrow> (\<Sum>it\<leftarrow>data. item_value it) = 0"
    using assms by (subst sum_list_nonneg_eq_0_iff) auto
  finally show ?thesis .
qed

lemma createPieChart_empty_state:
  assumes "pc_data config = Some data" and "totalValue data = Num 0"
    and "createBitmap_ok io (pc_width config) (pc_height config)"
    and "openStream_ok io (pathOrDefault io (pc_path config) ''pieChart'')"
  shows "createPieChart io config =
           Some (pathOrDefault io (pc_path config) ''pieChart'',
             [DrawPaint ((new_Paint True)\<lparr>argb := hexToARGB (pc_backgroundColor config)\<rparr>),
              DrawText [Lit pieEmptyText]
                (Num (real (pc_width config) / 2)) (Num (real (pc_height config) / 2))
                ((new_Paint True)\<lparr>argb := hexToARGB (pc_textColor config), textSize := 35,
                   textAlign := CENTER\<rparr>)])"
  using assms by (simp add: createPieChart_def Let_def)

lemma createPieChart_slices_total:
  assumes "pc_data config = Some data" and "createPieChart io config = Some (path, cmds)"
    and "c \<in> set cmds" and "isArc c"
  shows "totalValue data \<noteq> Num 0"
proof
  assume "totalValue data = Num 0"
  with assms(1,2) have "cmds =
      [DrawPaint ((new_Paint True)\<lparr>argb := hexToARGB (pc_backgroundColor config)\<rparr>),
       DrawText [Lit pieEmptyText]
         (Num (real (pc_width config) / 2)) (Num (real (pc_height config) / 2))
         ((new_Paint True)\<lparr>argb := hexToARGB (pc_textColor config), textSize := 35,
            textAlign := CENTER\<rparr>)]"
    by (auto simp add: createPieChart_def Let_def split: if_splits)
  with assms(3,4) show False by auto
qed

lemma pie_example_slices:
  "createPieChart idealPlatform
     (pc_defaults\<lparr>pc_path := Some ''pie.png'',
        pc_data := Some [\<lparr>item_label = ''A'', item_value = 1\<rparr>,
                         \<lparr>item_label = ''B'', item_value = 3\<rparr>]\<rparr>) =
   Some (''pie.png'',
     [DrawPaint ((new_Paint True)\<lparr>argb := hexToARGB ''#FFFFFF''\<rparr>),
      DrawArc (Num 80) (Num 120) (Num 640) (Num 680) (Num (- 90)) (Num 90) True
        ((new_Paint True)\<lparr>style := FILL, argb := hexToARGB ''#FF6384''\<rparr>),
      DrawRect (Num 720) (Num 340) (Num 760) (Num 380)
        ((new_Paint True)\<lparr>style := FILL, argb := hexToARGB ''#FF6384''\<rparr>),
      DrawText [Lit ''A'', Lit '' ('', ToFixed1 (Num 25), Lit ''%)''] (Num 780) (Num 375)
        ((new_Paint True)\<lparr>argb := hexToARGB ''#000000'', textSize := 35, textAlign := LEFT\<rparr>),
      DrawArc (Num 80) (Num 120) (Num 640) (Num 680) (Num 0) (Num 270) True
        ((new_Paint True)\<lparr>style := FILL, argb := hexToARGB ''#36A2EB''\<rparr>),
      DrawRect (Num 720) (Num 400) (Num 760) (Num 440)
        ((new_Paint True)\<lparr>style := FILL, argb := hexToARGB ''#36A2EB''\<rparr>),
      DrawText [Lit ''B'', Lit '' ('', ToFixed1 (Num 75), Lit ''%)''] (Num 780) (Num 435)
        ((new_Paint True)\<lparr>argb := hexToARGB ''#000000'', textSize := 35, textAlign := LEFT\<rparr>)])"
  by (simp add: createPieChart_def totalValue_def valueOf_def arith64_Num round64_numeral
      pc_defaults_def Let_def)


text \<open>
  Claim C8 as stated fails for values that sum to 0 while their running sum on doubles
  does not. The values \<open>10\<^sup>1\<^sup>6, 1, -10\<^sup>1\<^sup>6, -1\<close> sum to 0, but \<open>10\<^sup>1\<^sup>6 + 1\<close> rounds to
  \<open>10\<^sup>1\<^sup>6\<close>, so the total is \<open>-1\<close>: the chart is drawn with four slices, not with the
  placeholder.
\<close>

theorem pie_rounded_total_counterexample:
  "sum_list (map item_value
      [\<lparr>item_label = ''A'', item_value = 10000000000000000\<rparr>,
       \<lparr>item_label = ''B'', item_value = 1\<rparr>,
       \<lparr>item_label = ''C'', item_value = - 10000000000000000\<rparr>,
       \<lparr>item_label = ''D'', item_value = - 1\<rparr>]) = 0
   \<and> totalValue
        [\<lparr>item_label = ''A'', item_value = 10000000000000000\<rparr>,
         \<lparr>item_label = ''B'', item_value = 1\<rparr>,
         \<lparr>item_label = ''C'', item_value = - 10000000000000000\<rparr>,
         \<lparr>item_label = ''D'', item_value = - 1\<rparr>] = Num (- 1)
   \<and> createPieChart idealPlatform
         (pc_defaults\<lparr>pc_path := Some ''pie.png'',
            pc_data := Some
              [\<lparr>item_label = ''A'', item_value = 10000000000000000\<rparr>,
               \<lparr>item_label = ''B'', item_value = 1\<rparr>,
               \<lparr>item_label = ''C'', item_value = - 10000000000000000\<rparr>,
               \<lparr>item_label = ''D'', item_value = - 1\<rparr>]\<rparr>) \<noteq> None
   \<and> length (filter isArc (snd (the (createPieChart idealPlatform
         (pc_defaults\<lparr>pc_path := Some ''pie.png'',
            pc_data := Some
              [\<lparr>item_label = ''A'', item_value = 10000000000000000\<rparr>,
               \<lparr>item_label = ''B'', item_value = 1\<rparr>,
               \<lparr>item_label = ''C'', item_value = - 10000000000000000\<rparr>,
               \<lparr>item_label = ''D'', item_value = - 1\<rparr>]\<rparr>))))) = 4"
proof -
  let ?D = "[\<lparr>item_label = ''A'', item_value = 10000000000000000\<rparr>,
             \<lparr>item_label = ''B'', item_value = 1\<rparr>,
             \<lparr>item_label = ''C'', item_value = - 10000000000000000\<rparr>,
             \<lparr>item_label = ''D'', item_value = - 1\<rparr>]"
  have r: "round64 10000000000000001 = Num 10000000000000000"
    "round64 (- 10000000000000000) = Num (- 10000000000000000)"
    by (subst round64_eval [where k = 53], simp_all add: roundEven_def)
       (subst round64_eval [where k = 53], simp_all add: roundEven_def)
  have t: "totalValue ?D = Num (- 1)"
    by (simp add: totalValue_def valueOf_def arith64_Num round64_big r)
  have c: "createPieChart idealPlatform (pc_defaults\<lparr>pc_path := Some ''pie.png'', pc_data := Some ?D\<rparr>)
             \<noteq> None
           \<and> length (filter isArc (snd (the (createPieChart idealPlatform
                (pc_defaults\<lparr>pc_path := Some ''pie.png'', pc_data := Some ?D\<rparr>))))) = 4"
    by (simp add: createPieChart_def pc_defaults_def Let_def t)
  from t c show ?thesis by simp
qed

text \<open>
  Claim C8, amended. A pie chart whose total, the running sum of the values on doubles,
  is exactly 0 draws the background and the placeholder text, centred, and nothing else:
  no slice, no legend, no division by the total. It returns the path, provided the
  bitmap and the file can be created. The total is 0 when every value is 0, as for the data
  \<open>[{A, 0}, {B, 0}]\<close>, and for values that are non-negative doubles it is 0 exactly when
  the values sum to 0. A slice is drawn only when the total is not 0, so the total is
  never a zero divisor.
\<close>

theorem pie_total_zero_empty_state:
  "(pc_data config = Some data \<and> totalValue data = Num 0
      \<and> createBitmap_ok io (pc_width config) (pc_height config)
      \<and> openStream_ok io (pathOrDefault io (pc_path config) ''pieChart'')
    \<longrightarrow> createPieChart io config =
           Some (pathOrDefault io (pc_path config) ''pieChart'',
             [DrawPaint ((new_Paint True)\<lparr>argb := hexToARGB (pc_backgroundColor config)\<rparr>),
              DrawText [Lit pieEmptyText]
                (Num (real (pc_width config) / 2)) (Num (real (pc_height config) / 2))
                ((new_Paint True)\<lparr>argb := hexToARGB (pc_textColor config), textSize := 35,
                   textAlign := CENTER\<rparr>)]))
   \<and> totalValue data = sum64 (map valueOf data)
   \<and> ((\<forall>it \<in> set data. item_value it = 0) \<longrightarrow> totalValue data = Num 0)
   \<and> ((\<forall>it \<in> set data. 0 \<le> item_value it \<and> valueOf it = Num (item_value it))
      \<longrightarrow> (totalValue data = Num 0 \<longleftrightarrow> (\<Sum>it\<leftarrow>data. item_value it) = 0))
   \<and> (pc_data config = Some data \<and> createPieChart io config = Some (path, cmds)
        \<and> c \<in> set cmds \<and> isArc c
      \<longrightarrow> totalValue data \<noteq> Num 0)
   \<and> createPieChart idealPlatform
         (pc_defaults\<lparr>pc_path := Some ''pie.png'',
            pc_data := Some [\<lparr>item_label = ''A'', item_value = 0\<rparr>,
                             \<lparr>item_label = ''B'', item_value = 0\<rparr>]\<rparr>) =
       Some (''pie.png'',
         [DrawPaint ((new_Paint True)\<lparr>argb := hexToARGB ''#FFFFFF''\<rparr>),
          DrawText [Lit pieEmptyText] (Num 600) (Num 400)
            ((new_Paint True)\<lparr>argb := hexToARGB ''#000000'', textSize := 35,
               textAlign := CENTER\<rparr>)])"
proof -
  have ex: "createPieChart idealPlatform
         (pc_defaults\<lparr>pc_path := Some ''pie.png'',
            pc_data := Some [\<lparr>item_label = ''A'', item_value = 0\<rparr>,
                             \<lparr>item_label = ''B'', item_value = 0\<rparr>]\<rparr>) =
       Some (''pie.png'',
         [DrawPaint ((new_Paint True)\<lparr>argb := hexToARGB ''#FFFFFF''\<rparr>),
          DrawText [Lit pieEmptyText] (Num 600) (Num 400)
            ((new_Paint True)\<lparr>argb := hexToARGB ''#000000'', textSize := 35,
               textAlign := CENTER\<rparr>)])"
    by (simp add: createPieChart_def totalValue_def valueOf_def arith64_Num pc_defaults_def Let_def)
  show ?thesis
    using createPieChart_empty_state [of config data io] totalValue_sum [of data]
      totalValue_all_zero [of data] totalValue_nonneg_zero_iff [of data]
      createPieChart_slices_total [of config data io path cmds c] ex
    by blast
qed

theorem pie_total_zero_empty_state_witness:
  "totalValue [\<lparr>item_label = ''A'', item_value = 2\<rparr>, \<lparr>item_label = ''B'', item_value = - 2\<rparr>]
     = Num 0
   \<and> createPieChart idealPlatform
         (pc_defaults\<lparr>pc_path := Some ''pie.png'',
            pc_data := Some [\<lparr>item_label = ''A'', item_value = 2\<rparr>,
                             \<lparr>item_label = ''B'', item_value = - 2\<rparr>]\<rparr>) =
       Some (''pie.png'',
         [DrawPaint ((new_Paint True)\<lparr>argb := hexToARGB ''#FFFFFF''\<rparr>),
          DrawText [Lit pieEmptyText] (Num 600) (Num 400)
            ((new_Paint True)\<lparr>argb := hexToARGB ''#000000'', textSize := 35,
               textAlign := CENTER\<rparr>)])
   \<and> list_all (\<lambda>it. 0 \<le> item_value it \<and> valueOf it = Num (item_value it))
         [\<lparr>item_label = ''A'', item_value = 1\<rparr>, \<lparr>item_label = ''B'', item_value = 3\<rparr>]
   \<and> sum_list (map item_value
         [\<lparr>item_label = ''A'', item_value = 1\<rparr>, \<lparr>item_label = ''B'', item_value = 3\<rparr>]) \<noteq> 0
   \<and> totalValue [\<lparr>item_label = ''A'', item_value = 1\<rparr>, \<lparr>item_label = ''B'', item_value = 3\<rparr>]
       \<noteq> Num 0
   \<and> list_ex isArc (snd (the (createPieChart idealPlatform
         (pc_defaults\<lparr>pc_path := Some ''pie.png'',
            pc_data := Some [\<lparr>item_label = ''A'', item_value = 1\<rparr>,
                             \<lparr>item_label = ''B'', item_value = 3\<rparr>]\<rparr>))))"
proof -
  let ?zero = "[\<lparr>item_label = ''A'', item_value = 2\<rparr>, \<lparr>item_label = ''B'', item_value = - 2\<rparr>]"
  let ?cz = "pc_defaults\<lparr>pc_path := Some ''pie.png'', pc_data := Some ?zero\<rparr>"
  let ?pos = "[\<lparr>item_label = ''A'', item_value = 1\<rparr>, \<lparr>item_label = ''B'', item_value = 3\<rparr>]"
  let ?cs = "pc_defaults\<lparr>pc_path := Some ''pie.png'', pc_data := Some ?pos\<rparr>"
  have z: "totalValue ?zero = Num 0"
    by (simp add: totalValue_def valueOf_def arith64_Num round64_numeral round64_neg_numeral)
  from pie_total_zero_empty_state [where config = ?cz and data = ?zero and io = idealPlatform,
         THEN conjunct1] z
  have a: "createPieChart idealPlatform ?cz =
       Some (''pie.png'',
         [DrawPaint ((new_Paint True)\<lparr>argb := hexToARGB ''#FFFFFF''\<rparr>),
          DrawText [Lit pieEmptyText] (Num 600) (Num 400)
            ((new_Paint True)\<lparr>argb := hexToARGB ''#000000'', textSize := 35,
               textAlign := CENTER\<rparr>)])"
    by (simp add: pc_defaults_def)
  have d: "\<forall>it \<in> set ?pos. 0 \<le> item_value it \<and> valueOf it = Num (item_value it)"
    by (simp add: valueOf_def round64_numeral)
  have s: "sum_list (map item_value ?pos) \<noteq> 0" by simp
  from pie_total_zero_empty_state [where data = ?pos, THEN conjunct2, THEN conjunct2,
         THEN conjunct2, THEN conjunct1, THEN mp, OF d] s
  have n: "totalValue ?pos \<noteq> Num 0" by simp
  have e: "list_ex isArc (snd (the (createPieChart idealPlatform ?cs)))"
    by (simp add: pie_example_slices)
  from z a d s n e show ?thesis by (simp add: list_all_iff)
qed


section \<open>Bar chart: all values zero\<close>




















section \<open>Normal distribution: the table of z-scores\<close>

lemma Z_SCORES_dom: "dom Z_SCORES = {68 / 100, 95 / 100, 99 / 100}"
  by (auto simp add: Z_SCORES_def split: if_splits)

lemma Z_SCORES_values:
  "Z_SCORES (68 / 100) = Some 1" "Z_SCORES (95 / 100) = Some (196 / 100)"
  "Z_SCORES (99 / 100) = Some (258 / 100)"
  by (simp_all add: Z_SCORES_def)

lemma Z_SCORES_nonzero: "Z_SCORES l = Some z \<Longrightarrow> z \<noteq> 0"
  by (auto simp add: Z_SCORES_def split: if_splits)

lemma supported_iff: "supported c \<longleftrightarrow> Z_SCORES (ci_level c) \<noteq> None"
  using Z_SCORES_dom by (auto simp add: supported_def dom_def)

lemma drawBands_filter: "drawBands ctx cs = map (bandOf ctx) (filter supported cs)"
proof (induction cs)
  case Nil
  then show ?case by simp
next
  case (Cons c cs)
  show ?case
  proof (cases "Z_SCORES (ci_level c)")
    case None
    then have "\<not> supported c" by (simp add: supported_iff)
    with None Cons show ?thesis by simp
  next
    case (Some z)
    then have "supported c" "z \<noteq> 0" by (simp_all add: supported_iff Z_SCORES_nonzero)
    with Some Cons show ?thesis by (simp add: bandOf_def)
  qed
qed

lemma bandContext_levels [simp]:
  "bandContext io (config\<lparr>nd_confidenceLevels := levels\<rparr>) = bandContext io config"
  by (simp add: bandContext_def Let_def cong: if_cong)

lemma ndAxes_levels [simp]: "ndAxes (config\<lparr>nd_confidenceLevels := levels\<rparr>) = ndAxes config"
  by (simp add: ndAxes_def Let_def cong: if_cong)

lemma ndGraphPath_levels [simp]:
  "ndGraphPath (config\<lparr>nd_confidenceLevels := levels\<rparr>) ctx = ndGraphPath config ctx"
  by (simp add: ndGraphPath_def Let_def cong: if_cong)

lemma createNormalDistributionChart_unfold:
  "createNormalDistributionChart io config =
     (if createBitmap_ok io (nd_width config) (nd_height config)
         \<and> openStream_ok io (pathOrDefault io (nd_path config) ''normalDistributionChart'')
      then Some (pathOrDefault io (nd_path config) ''normalDistributionChart'',
             [DrawPaint ((new_Paint False)\<lparr>argb := hexToARGB (nd_backgroundColor config)\<rparr>)]
             @ map (bandOf (bandContext io config))
                 (filter supported (sortedConfidenceLevels (nd_confidenceLevels config)))
             @ ndAxes config
             @ [DrawPath (ndGraphPath config (bandContext io config))
                  ((new_Paint True)\<lparr>argb := hexToARGB (nd_lineColor config), strokeWidth := 5,
                     style := STROKE\<rparr>)])
      else None)"
  by (simp add: createNormalDistributionChart_def Let_def drawBands_filter)

lemma sorted_filter_commute:
  "filter supported (sortedConfidenceLevels levels) = sortedConfidenceLevels (filter supported levels)"
  by (simp add: sortedConfidenceLevels_def filter_sort)

lemma unsupported_skipped:
  "createNormalDistributionChart io (config\<lparr>nd_confidenceLevels := levels\<rparr>) =
   createNormalDistributionChart io (config\<lparr>nd_confidenceLevels := filter supported levels\<rparr>)"
  by (simp add: createNormalDistributionChart_unfold sorted_filter_commute)

lemma ndAxes_no_path: "filter drawsPath (ndAxes config) = []"
  by (simp add: ndAxes_def Let_def)

lemma band_paths: "filter drawsPath (map (bandOf ctx) cs) = map (bandOf ctx) cs"
  by (induction cs) (simp_all add: bandOf_def)

lemma nd_path_count:
  assumes "createBitmap_ok io (nd_width config) (nd_height config)"
    and "openStream_ok io (pathOrDefault io (nd_path config) ''normalDistributionChart'')"
  shows "\<exists>cmds. createNormalDistributionChart io config =
                   Some (pathOrDefault io (nd_path config) ''normalDistributionChart'', cmds)
           \<and> length (filter drawsPath cmds)
               = 1 + length (filter supported (nd_confidenceLevels config))"
proof -
  have "length (filter supported (sortedConfidenceLevels (nd_confidenceLevels config)))
          = length (filter supported (nd_confidenceLevels config))"
    by (simp add: filter_sort sortedConfidenceLevels_def)
  with assms show ?thesis
    by (simp add: createNormalDistributionChart_unfold ndAxes_no_path band_paths)
qed


text \<open>
  Claim C4 as stated fails at the level 0.95: it is a key of the table (with z-score
  1.96), and a chart whose only confidence level is 0.95 draws a band for it, that is
  two paths (the band and the curve) where a chart with no level draws one.
\<close>

theorem z_table_counterexample:
  "Z_SCORES (95 / 100) = Some (196 / 100)
   \<and> length (filter drawsPath (snd (the (createNormalDistributionChart idealPlatform
         (nd_defaults\<lparr>nd_path := Some ''normal.png'',
            nd_confidenceLevels := [\<lparr>ci_level = 95 / 100, ci_color = ''#504287F5''\<rparr>]\<rparr>))))) = 2
   \<and> length (filter drawsPath (snd (the (createNormalDistributionChart idealPlatform
         (nd_defaults\<lparr>nd_path := Some ''normal.png'', nd_confidenceLevels := []\<rparr>))))) = 1"
proof -
  let ?c = "nd_defaults\<lparr>nd_path := Some ''normal.png'',
            nd_confidenceLevels := [\<lparr>ci_level = 95 / 100, ci_color = ''#504287F5''\<rparr>]\<rparr>"
  let ?e = "nd_defaults\<lparr>nd_path := Some ''normal.png'', nd_confidenceLevels := []\<rparr>"
  from nd_path_count [of idealPlatform ?c]
  have a: "length (filter drawsPath (snd (the (createNormalDistributionChart idealPlatform ?c)))) = 2"
    by (auto simp add: supported_def)
  from nd_path_count [of idealPlatform ?e]
  have b: "length (filter drawsPath (snd (the (createNormalDistributionChart idealPlatform ?e)))) = 1"
    by auto
  from a b Z_SCORES_values(2) show ?thesis by blast
qed

text \<open>
  Claim C4, amended. The levels of the table of z-scores are exactly 0.68, 0.95 and
  0.99. A confidence level that is not in the table is skipped: the chart is the one
  drawn without it, no error is raised for it, and when the bitmap and the file can be
  created the chart is saved with one path for the curve and one for each level of the
  table.
\<close>

theorem z_table_levels_and_skipping:
  "dom Z_SCORES = {68 / 100, 95 / 100, 99 / 100}
   \<and> createNormalDistributionChart io (config\<lparr>nd_confidenceLevels := levels\<rparr>) =
       createNormalDistributionChart io
         (config\<lparr>nd_confidenceLevels :=
            filter (\<lambda>c. ci_level c \<in> {68 / 100, 95 / 100, 99 / 100}) levels\<rparr>)
   \<and> (createBitmap_ok io (nd_width config) (nd_height config)
        \<and> openStream_ok io (pathOrDefault io (nd_path config) ''normalDistributionChart'')
      \<longrightarrow> (\<exists>cmds. createNormalDistributionChart io config =
                   Some (pathOrDefault io (nd_path config) ''normalDistributionChart'', cmds)
           \<and> length (filter drawsPath cmds)
               = 1 + length (filter (\<lambda>c. ci_level c \<in> {68 / 100, 95 / 100, 99 / 100})
                               (nd_confidenceLevels config))))"
  using Z_SCORES_dom unsupported_skipped [where io = io and config = config and levels = levels]
    nd_path_count [of io config]
  unfolding supported_def [abs_def]
  by blast

theorem z_table_levels_and_skipping_witness:
  "createNormalDistributionChart idealPlatform
     (nd_defaults\<lparr>nd_path := Some ''normal.png'',
        nd_confidenceLevels := [\<lparr>ci_level = 1 / 2, ci_color = ''#FF0000''\<rparr>,
                                \<lparr>ci_level = 99 / 100, ci_color = ''#504287F5''\<rparr>]\<rparr>) \<noteq> None
   \<and> length (filter drawsPath (snd (the (createNormalDistributionChart idealPlatform
         (nd_defaults\<lparr>nd_path := Some ''normal.png'',
            nd_confidenceLevels := [\<lparr>ci_level = 1 / 2, ci_color = ''#FF0000''\<rparr>,
                                    \<lparr>ci_level = 99 / 100, ci_color = ''#504287F5''\<rparr>]\<rparr>))))) = 2"
proof -
  let ?c = "nd_defaults\<lparr>nd_path := Some ''normal.png'',
        nd_confidenceLevels := [\<lparr>ci_level = 1 / 2, ci_color = ''#FF0000''\<rparr>,
                                \<lparr>ci_level = 99 / 100, ci_color = ''#504287F5''\<rparr>]\<rparr>"
  from z_table_levels_and_skipping
         [where io = idealPlatform and config = ?c and levels = "[]", THEN conjunct2,
          THEN conjunct2]
  obtain cmds where "createNormalDistributionChart idealPlatform ?c = Some (''normal.png'', cmds)"
    and "length (filter drawsPath cmds) = 2"
    by (auto simp add: nd_defaults_def)
  then show ?thesis by simp
qed


section \<open>Normal distribution: the order of the bands\<close>

text \<open>
  None of the following depends on how the sort orders entries of equal level: the drawn
  levels are compared, and whole charts only for pairwise different levels.
\<close>

lemma sortedConfidenceLevels_descending:
  "sorted_wrt (\<lambda>a b. ci_level a \<ge> ci_level b) (sortedConfidenceLevels levels)"
proof -
  have "sorted (map (\<lambda>c. - ci_level c) (sortedConfidenceLevels levels))"
    by (simp add: sortedConfidenceLevels_def)
  then show ?thesis by (simp add: sorted_map)
qed

lemma drawn_descending:
  "sorted_wrt (\<lambda>a b. ci_level a \<ge> ci_level b) (filter supported (sortedConfidenceLevels levels))"
  using sortedConfidenceLevels_descending by (rule sorted_wrt_filter)

lemma sorted_levels_of_permutation:
  assumes "mset levels' = mset levels"
  shows "map ci_level (sortedConfidenceLevels levels') = map ci_level (sortedConfidenceLevels levels)"
proof -
  have key: "map (\<lambda>c. - ci_level c) (sortedConfidenceLevels ls) = sort (map (\<lambda>c. - ci_level c) ls)"
    for ls
    by (rule properties_for_sort [symmetric])
       (simp_all add: sortedConfidenceLevels_def)
  have "mset (map (\<lambda>c. - ci_level c) levels') = mset (map (\<lambda>c. - ci_level c) levels)"
    using assms by (metis mset_map)
  then have "sort (map (\<lambda>c. - ci_level c) levels') = sort (map (\<lambda>c. - ci_level c) levels)"
    by (metis properties_for_sort mset_sort sorted_sort)
  then have "map (\<lambda>c. - ci_level c) (sortedConfidenceLevels levels')
             = map (\<lambda>c. - ci_level c) (sortedConfidenceLevels levels)"
    by (simp add: key)
  then have "map uminus (map ci_level (sortedConfidenceLevels levels'))
             = map uminus (map ci_level (sortedConfidenceLevels levels))"
    by (simp add: comp_def)
  then show ?thesis
    by (simp only: inj_map_eq_map [OF inj_uminus])
qed

lemma drawn_levels_of_permutation:
  assumes "mset levels' = mset levels"
  shows "map ci_level (filter supported (sortedConfidenceLevels levels'))
         = map ci_level (filter supported (sortedConfidenceLevels levels))"
proof -
  have "map ci_level (filter supported ls)
        = filter (\<lambda>l. l \<in> {68 / 100, 95 / 100, 99 / 100}) (map ci_level ls)" for ls
    by (induction ls) (simp_all add: supported_def)
  with sorted_levels_of_permutation [OF assms] show ?thesis by simp
qed

lemma sorted_of_permutation_distinct:
  assumes "mset levels' = mset levels" and "distinct (map ci_level levels)"
  shows "sortedConfidenceLevels levels' = sortedConfidenceLevels levels"
  unfolding sortedConfidenceLevels_def
proof (rule sort_key_inj_key_eq)
  show "mset levels' = mset (sort_key (\<lambda>c. - ci_level c) levels)"
    using assms(1) by simp
  have "set levels' = set levels" using assms(1) by (rule mset_eq_setD)
  moreover have "inj_on ci_level (set levels)"
    using assms(2) by (simp add: distinct_map)
  ultimately show "inj_on (\<lambda>c. - ci_level c) (set levels')"
    by (auto simp add: inj_on_def)
  show "sorted (map (\<lambda>c. - ci_level c) (sort_key (\<lambda>c. - ci_level c) levels))"
    by simp
qed

lemma chart_of_permutation_distinct:
  assumes "mset levels' = mset levels" and "distinct (map ci_level levels)"
  shows "createNormalDistributionChart io (config\<lparr>nd_confidenceLevels := levels'\<rparr>)
         = createNormalDistributionChart io (config\<lparr>nd_confidenceLevels := levels\<rparr>)"
  by (simp add: createNormalDistributionChart_unfold sorted_of_permutation_distinct [OF assms])

lemma wide_before_narrow:
  assumes "ci_level a = 95 / 100" and "ci_level b = 68 / 100"
  shows "filter supported (sortedConfidenceLevels [a, b]) = [a, b]"
    and "filter supported (sortedConfidenceLevels [b, a]) = [a, b]"
  using assms by (simp_all add: sortedConfidenceLevels_def supported_def)


text \<open>
  Claim C7. When the bitmap and the file can be created, the bands are the canvas calls
  between the background and the axes, one for each supported level of the sorted array,
  in that order. Their levels are descending, so a wider band is drawn before a narrower
  one; the sequence of drawn levels is the same for every permutation of the array, and
  when the levels are pairwise different the whole chart is the same. For the levels
  0.95 and 0.68 the band of 0.95 comes first in both input orders.
\<close>

theorem bands_drawn_widest_first:
  "(createBitmap_ok io (nd_width config) (nd_height config)
      \<and> openStream_ok io (pathOrDefault io (nd_path config) ''normalDistributionChart'')
    \<longrightarrow> createNormalDistributionChart io config =
          Some (pathOrDefault io (nd_path config) ''normalDistributionChart'',
             [DrawPaint ((new_Paint False)\<lparr>argb := hexToARGB (nd_backgroundColor config)\<rparr>)]
             @ map (bandOf (bandContext io config))
                 (filter supported (sortedConfidenceLevels (nd_confidenceLevels config)))
             @ ndAxes config
             @ [DrawPath (ndGraphPath config (bandContext io config))
                  ((new_Paint True)\<lparr>argb := hexToARGB (nd_lineColor config), strokeWidth := 5,
                     style := STROKE\<rparr>)]))
   \<and> sorted_wrt (\<lambda>a b. ci_level a \<ge> ci_level b)
         (filter supported (sortedConfidenceLevels levels))
   \<and> (mset levels' = mset levels
      \<longrightarrow> map ci_level (filter supported (sortedConfidenceLevels levels'))
          = map ci_level (filter supported (sortedConfidenceLevels levels)))
   \<and> (mset levels' = mset levels \<and> distinct (map ci_level levels)
      \<longrightarrow> createNormalDistributionChart io (config\<lparr>nd_confidenceLevels := levels'\<rparr>)
          = createNormalDistributionChart io (config\<lparr>nd_confidenceLevels := levels\<rparr>))
   \<and> (ci_level wide = 95 / 100 \<and> ci_level narrow = 68 / 100
      \<longrightarrow> filter supported (sortedConfidenceLevels [wide, narrow]) = [wide, narrow]
        \<and> filter supported (sortedConfidenceLevels [narrow, wide]) = [wide, narrow])"
proof -
  have shape: "createBitmap_ok io (nd_width config) (nd_height config)
      \<and> openStream_ok io (pathOrDefault io (nd_path config) ''normalDistributionChart'')
    \<longrightarrow> createNormalDistributionChart io config =
          Some (pathOrDefault io (nd_path config) ''normalDistributionChart'',
             [DrawPaint ((new_Paint False)\<lparr>argb := hexToARGB (nd_backgroundColor config)\<rparr>)]
             @ map (bandOf (bandContext io config))
                 (filter supported (sortedConfidenceLevels (nd_confidenceLevels config)))
             @ ndAxes config
             @ [DrawPath (ndGraphPath config (bandContext io config))
                  ((new_Paint True)\<lparr>argb := hexToARGB (nd_lineColor config), strokeWidth := 5,
                     style := STROKE\<rparr>)])"
    by (simp add: createNormalDistributionChart_unfold)
  show ?thesis
    using shape drawn_descending [of levels] drawn_levels_of_permutation [of levels' levels]
      chart_of_permutation_distinct [of levels' levels io config]
      wide_before_narrow [of wide narrow]
    by blast
qed

theorem bands_drawn_widest_first_witness:
  "mset [\<lparr>ci_level = 68 / 100, ci_color = ''#7877BEFD''\<rparr>,
         \<lparr>ci_level = 95 / 100, ci_color = ''#504287F5''\<rparr>]
     = mset [\<lparr>ci_level = 95 / 100, ci_color = ''#504287F5''\<rparr>,
             \<lparr>ci_level = 68 / 100, ci_color = ''#7877BEFD''\<rparr>]
   \<and> distinct (map ci_level [\<lparr>ci_level = 95 / 100, ci_color = ''#504287F5''\<rparr>,
                                \<lparr>ci_level = 68 / 100, ci_color = ''#7877BEFD''\<rparr>])
   \<and> createNormalDistributionChart idealPlatform
         (nd_defaults\<lparr>nd_path := Some ''normal.png'',
            nd_confidenceLevels := [\<lparr>ci_level = 68 / 100, ci_color = ''#7877BEFD''\<rparr>,
                                    \<lparr>ci_level = 95 / 100, ci_color = ''#504287F5''\<rparr>]\<rparr>)
       = createNormalDistributionChart idealPlatform
           (nd_defaults\<lparr>nd_path := Some ''normal.png'',
              nd_confidenceLevels := [\<lparr>ci_level = 95 / 100, ci_color = ''#504287F5''\<rparr>,
                                      \<lparr>ci_level = 68 / 100, ci_color = ''#7877BEFD''\<rparr>]\<rparr>)
   \<and> take 3 (snd (the (createNormalDistributionChart idealPlatform
         (nd_defaults\<lparr>nd_path := Some ''normal.png'',
            nd_confidenceLevels := [\<lparr>ci_level = 68 / 100, ci_color = ''#7877BEFD''\<rparr>,
                                    \<lparr>ci_level = 95 / 100, ci_color = ''#504287F5''\<rparr>]\<rparr>))))
       = [DrawPaint ((new_Paint False)\<lparr>argb := hexToARGB ''#FFFFFF''\<rparr>),
          bandOf (bandContext idealPlatform (nd_defaults\<lparr>nd_path := Some ''normal.png''\<rparr>))
            \<lparr>ci_level = 95 / 100, ci_color = ''#504287F5''\<rparr>,
          bandOf (bandContext idealPlatform (nd_defaults\<lparr>nd_path := Some ''normal.png''\<rparr>))
            \<lparr>ci_level = 68 / 100, ci_color = ''#7877BEFD''\<rparr>]"
proof -
  let ?w = "\<lparr>ci_level = 95 / 100, ci_color = ''#504287F5''\<rparr>"
  let ?n = "\<lparr>ci_level = 68 / 100, ci_color = ''#7877BEFD''\<rparr>"
  let ?base = "nd_defaults\<lparr>nd_path := Some ''normal.png''\<rparr>"
  let ?c = "?base\<lparr>nd_confidenceLevels := [?n, ?w]\<rparr>"
  note t = bands_drawn_widest_first
             [where io = idealPlatform and config = ?c and levels' = "[?n, ?w]"
                and levels = "[?w, ?n]" and wide = ?w and narrow = ?n]
  have m: "mset [?n, ?w] = mset [?w, ?n]" by simp
  have d: "distinct (map ci_level [?w, ?n])" by simp
  have lv: "ci_level ?w = 95 / 100 \<and> ci_level ?n = 68 / 100" by simp
  have ok: "createBitmap_ok idealPlatform (nd_width ?c) (nd_height ?c)
      \<and> openStream_ok idealPlatform
          (pathOrDefault idealPlatform (nd_path ?c) ''normalDistributionChart'')"
    by simp
  have e: "createNormalDistributionChart idealPlatform ?c
       = createNormalDistributionChart idealPlatform (?base\<lparr>nd_confidenceLevels := [?w, ?n]\<rparr>)"
    using t [THEN conjunct2, THEN conjunct2, THEN conjunct2, THEN conjunct1, THEN mp,
             OF conjI [OF m d]]
    by simp
  have f: "filter supported (sortedConfidenceLevels [?n, ?w]) = [?w, ?n]"
    using t [THEN conjunct2, THEN conjunct2, THEN conjunct2, THEN conjunct2, THEN mp, OF lv]
    by (rule conjunct2)
  define rest where "rest = ndAxes ?c
             @ [DrawPath (ndGraphPath ?c (bandContext idealPlatform ?c))
                  ((new_Paint True)\<lparr>argb := hexToARGB (nd_lineColor ?c), strokeWidth := 5,
                     style := STROKE\<rparr>)]"
  have s1: "createNormalDistributionChart idealPlatform ?c =
          Some (pathOrDefault idealPlatform (nd_path ?c) ''normalDistributionChart'',
             [DrawPaint ((new_Paint False)\<lparr>argb := hexToARGB (nd_backgroundColor ?c)\<rparr>)]
             @ map (bandOf (bandContext idealPlatform ?c))
                 (filter supported (sortedConfidenceLevels (nd_confidenceLevels ?c)))
             @ rest)"
    unfolding rest_def using t [THEN conjunct1, THEN mp, OF ok] .
  have lc: "nd_confidenceLevels ?c = [?n, ?w]" by simp
  have bc: "bandContext idealPlatform ?c = bandContext idealPlatform ?base" by simp
  have bg: "nd_backgroundColor ?c = ''#FFFFFF''" by (simp add: nd_defaults_def)
  have s2: "createNormalDistributionChart idealPlatform ?c =
          Some (pathOrDefault idealPlatform (nd_path ?c) ''normalDistributionChart'',
             [DrawPaint ((new_Paint False)\<lparr>argb := hexToARGB ''#FFFFFF''\<rparr>)]
             @ map (bandOf (bandContext idealPlatform ?base)) [?w, ?n]
             @ rest)"
    using s1 by (simp only: lc f bc bg)
  have g: "take 3 (snd (the (createNormalDistributionChart idealPlatform ?c)))
       = [DrawPaint ((new_Paint False)\<lparr>argb := hexToARGB ''#FFFFFF''\<rparr>),
          bandOf (bandContext idealPlatform ?base) ?w,
          bandOf (bandContext idealPlatform ?base) ?n]"
    by (simp only: s2 option.sel snd_conv list.map append_Cons append_Nil take_Suc_Cons
          take_0 numeral_3_eq_3)
  from m d e g show ?thesis by blast
qed

end
